theory Spec2Isabelle
  imports Main "HOL-Library.Word"
begin

section \<open>Kubernetes objects built by pkg/cluster/objects.go\<close>

text \<open>
  The Go structs of the client library are records; a field is named after its struct
  and its Go name, since several structs have a field \<open>Name\<close>. A Go \<open>string\<close> and a
  Go \<open>[]byte\<close> are both sequences of bytes, and an Isabelle \<open>char\<close> is one byte, so
  both are \<open>string\<close> here and the conversion \<open>string(user.username)\<close> is the
  identity. A Go map is a partial function; an unset (nil) map and an empty map are
  both \<open>Map.empty\<close>. A pointer field is an \<open>option\<close>.
\<close>

type_synonym bytes = string

text \<open>
  The parsed quantity (\<open>resource.Quantity\<close>) belongs to the client library; it is the
  type parameter \<open>'q\<close> throughout.
\<close>

datatype ResourceName = ResourceCPU | ResourceMemory
datatype Protocol = ProtocolTCP
datatype PullPolicy = PullAlways
datatype SecretType = SecretTypeOpaque
datatype ServiceType = ServiceTypeClusterIP

record ObjectFieldSelector =
  FieldRef_APIVersion :: string
  FieldRef_FieldPath :: string

record SecretKeySelector =
  LocalObjectReference_Name :: string
  SecretKeyRef_Key :: string

record EnvVarSource =
  FieldRef :: "ObjectFieldSelector option"
  SecretKeyRef :: "SecretKeySelector option"

record EnvVar =
  EnvVar_Name :: string
  EnvVar_Value :: string
  EnvVar_ValueFrom :: "EnvVarSource option"

record ContainerPort =
  ContainerPort_ContainerPort :: "32 word"
  ContainerPort_Protocol :: Protocol

record VolumeMount =
  VolumeMount_Name :: string
  VolumeMount_MountPath :: string

record 'q ResourceRequirements =
  Requests :: "ResourceName \<rightharpoonup> 'q"

record 'q Container =
  Container_Name :: string
  Container_Image :: string
  Container_ImagePullPolicy :: PullPolicy
  Container_Resources :: "'q ResourceRequirements"
  Container_Ports :: "ContainerPort list"
  Container_VolumeMounts :: "VolumeMount list"
  Container_Env :: "EnvVar list"

record EmptyDirVolumeSource =
  EmptyDir_Medium :: string

record VolumeSource =
  EmptyDir :: "EmptyDirVolumeSource option"

record Volume =
  Volume_Name :: string
  Volume_VolumeSource :: VolumeSource

record 'q PodSpec =
  TerminationGracePeriodSeconds :: "64 word option"
  PodSpec_Volumes :: "Volume list"
  PodSpec_Containers :: "'q Container list"

record ObjectMeta =
  ObjectMeta_Name :: string
  ObjectMeta_Labels :: "string \<rightharpoonup> string"
  ObjectMeta_Annotations :: "string \<rightharpoonup> string"

record 'q PodTemplateSpec =
  PodTemplateSpec_ObjectMeta :: ObjectMeta
  PodTemplateSpec_Spec :: "'q PodSpec"

record 'q StatefulSetSpec =
  Replicas :: "32 word option"
  ServiceName :: string
  Template :: "'q PodTemplateSpec"

record 'q StatefulSet =
  StatefulSet_ObjectMeta :: ObjectMeta
  StatefulSet_Spec :: "'q StatefulSetSpec"

record Secret =
  Secret_ObjectMeta :: ObjectMeta
  Secret_Type :: SecretType
  Secret_Data :: "string \<rightharpoonup> bytes"

datatype IntOrStringType = intstr_Int | intstr_String

record IntOrString =
  IntOrString_Type :: IntOrStringType
  IntVal :: "32 word"
  StrVal :: string

record ServicePort =
  ServicePort_Port :: "32 word"
  ServicePort_TargetPort :: IntOrString

record ServiceSpec =
  ServiceSpec_Type :: ServiceType
  ServiceSpec_Ports :: "ServicePort list"

record Service =
  Service_ObjectMeta :: ObjectMeta
  Service_Spec :: ServiceSpec

record Endpoints =
  Endpoints_ObjectMeta :: ObjectMeta

section \<open>The cluster\<close>

text \<open>
  The receiver \<open>c *Cluster\<close>, with the fields objects.go reads:
  \<open>(*c.cluster).Metadata.Name\<close>, \<open>c.cluster.Spec.NumberOfInstances\<close>,
  \<open>(*c.cluster).Spec.Resources.Cpu\<close> and \<open>.Memory\<close>, \<open>c.etcdHost\<close>,
  \<open>c.dockerImage\<close>, \<open>c.pgUsers\<close> and \<open>c.config.Namespace\<close>. The users are held in
  the order in which \<open>range c.pgUsers\<close> yields them.
\<close>

record pgUser =
  username :: bytes
  password :: bytes

record Cluster =
  Metadata_Name :: string
  Spec_NumberOfInstances :: "32 word"
  Spec_Resources_Cpu :: string
  Spec_Resources_Memory :: string
  etcdHost :: string
  dockerImage :: string
  pgUsers :: "pgUser list"
  config_Namespace :: string

section \<open>Collaborators that are not in objects.go\<close>

text \<open>
  \<open>resource.MustParse\<close> belongs to the client library: it returns the parsed quantity
  or panics. It is a parameter \<open>MustParse\<close> of the model, a function of the string it
  is given, with the panic as the left summand.
\<close>

datatype panic = Panic string

text \<open>
  Modelled from the spec: the errors of the orchestration client and the two predicates
  \<open>k8sutil.ResourceNotFound\<close> and \<open>k8sutil.IsKubernetesResourceAlreadyExistError\<close>,
  whose package is not among the sources. The spec's taxonomy has the conditions "not
  found" and "already exists", which the client returns "distinguishable", and any other
  failure of the platform. An error result \<open>err\<close> is \<open>None\<close> for Go's \<open>nil\<close>.
\<close>

datatype kerr = NotFound | AlreadyExists | PlatformError string

definition ResourceNotFound :: "kerr option \<Rightarrow> bool" where
  "ResourceNotFound err = (err = Some NotFound)"

definition IsKubernetesResourceAlreadyExistError :: "kerr option \<Rightarrow> bool" where
  "IsKubernetesResourceAlreadyExistError err = (err = Some AlreadyExists)"

text \<open>
  Modelled from the spec: the method \<open>credentialSecretName\<close> of \<open>Cluster\<close> is not in
  objects.go. The spec says that "secrets are named by a deterministic function of
  cluster name and role"; which function is left open, as the parameter \<open>nm\<close>.
\<close>

definition credentialSecretName :: "(string \<Rightarrow> string \<Rightarrow> string) \<Rightarrow> Cluster \<Rightarrow> string \<Rightarrow> string" where
  "credentialSecretName nm c userName = nm (Metadata_Name c) userName"

text \<open>
  Modelled from the spec: the method \<open>labels\<close> of \<open>Cluster\<close> is not in objects.go. The
  spec says that the label set is "derived solely from the cluster identity", the name
  from which every child object's name is derived; which labels is left open, as the
  parameter \<open>lab\<close>.
\<close>

definition labels :: "(string \<Rightarrow> string \<rightharpoonup> string) \<Rightarrow> Cluster \<Rightarrow> string \<rightharpoonup> string" where
  "labels lab c = lab (Metadata_Name c)"

text \<open>
  The calls objects.go makes on \<open>c.config.KubeClient\<close>, each with the namespace it is
  scoped to. The client is a parameter \<open>api\<close>: given a call and the platform's state it
  returns the error result and the platform's new state (the object a call returns is
  discarded by every caller in objects.go).
\<close>

datatype 'q call =
    SecretsCreate string Secret
  | SecretsUpdate string Secret
  | ServicesGet string string
  | ServicesCreate string Service
  | EndpointsGet string string
  | EndpointsCreate string Endpoints
  | StatefulSetsCreate string "'q StatefulSet"

text \<open>
  The logger: \<open>c.logger.Infof\<close> and \<open>c.logger.Errorf\<close>, with the format string and
  the argument.
\<close>

datatype logarg =
    ArgErr kerr
  | ArgString string
  | ArgSecret Secret
  | ArgService Service
  | ArgEndpoints Endpoints

datatype logentry = Infof string logarg | Errorf string logarg

text \<open>
  The state the operations run in: the platform behind the client, the calls made so far
  with the error result of each, and the lines logged so far.
\<close>

record ('p, 'q) State =
  platform :: 'p
  calls :: "('q call \<times> kerr option) list"
  log :: "logentry list"

definition invoke :: "('q call \<Rightarrow> 'p \<Rightarrow> kerr option \<times> 'p) \<Rightarrow> 'q call \<Rightarrow> ('p, 'q) State \<Rightarrow> kerr option \<times> ('p, 'q) State" where
  "invoke api cl st =
     (let (err, p) = api cl (platform st)
      in (err, st\<lparr>platform := p, calls := calls st @ [(cl, err)]\<rparr>))"

definition logger :: "logentry \<Rightarrow> ('p, 'q) State \<Rightarrow> ('p, 'q) State" where
  "logger e st = st\<lparr>log := log st @ [e]\<rparr>"

section \<open>createStatefulSet\<close>

definition envVars :: "(string \<Rightarrow> string \<Rightarrow> string) \<Rightarrow> Cluster \<Rightarrow> EnvVar list" where
  "envVars nm c =
     (let clusterName = Metadata_Name c in
      [\<lparr>EnvVar_Name = ''SCOPE'', EnvVar_Value = clusterName, EnvVar_ValueFrom = None\<rparr>,
       \<lparr>EnvVar_Name = ''PGROOT'', EnvVar_Value = ''/home/postgres/pgdata/pgroot'',
        EnvVar_ValueFrom = None\<rparr>,
       \<lparr>EnvVar_Name = ''ETCD_HOST'', EnvVar_Value = etcdHost c, EnvVar_ValueFrom = None\<rparr>,
       \<lparr>EnvVar_Name = ''POD_IP'', EnvVar_Value = [],
        EnvVar_ValueFrom = Some \<lparr>
          FieldRef = Some \<lparr>FieldRef_APIVersion = ''v1'', FieldRef_FieldPath = ''status.podIP''\<rparr>,
          SecretKeyRef = None\<rparr>\<rparr>,
       \<lparr>EnvVar_Name = ''POD_NAMESPACE'', EnvVar_Value = [],
        EnvVar_ValueFrom = Some \<lparr>
          FieldRef = Some \<lparr>FieldRef_APIVersion = ''v1'', FieldRef_FieldPath = ''metadata.namespace''\<rparr>,
          SecretKeyRef = None\<rparr>\<rparr>,
       \<lparr>EnvVar_Name = ''PGPASSWORD_SUPERUSER'', EnvVar_Value = [],
        EnvVar_ValueFrom = Some \<lparr>
          FieldRef = None,
          SecretKeyRef = Some \<lparr>
            LocalObjectReference_Name = credentialSecretName nm c ''superuser'',
            SecretKeyRef_Key = ''password''\<rparr>\<rparr>\<rparr>,
       \<lparr>EnvVar_Name = ''PGPASSWORD_STANDBY'', EnvVar_Value = [],
        EnvVar_ValueFrom = Some \<lparr>
          FieldRef = None,
          SecretKeyRef = Some \<lparr>
            LocalObjectReference_Name = credentialSecretName nm c ''replication'',
            SecretKeyRef_Key = ''password''\<rparr>\<rparr>\<rparr>])"

text \<open>
  Lines 70 to 78: the map starts empty; each of the two entries is added only when the
  spec's string is not empty, and \<open>MustParse\<close> may panic on it, CPU first.
\<close>

definition resourceList :: "(string \<Rightarrow> panic + 'q) \<Rightarrow> Cluster \<Rightarrow> panic + (ResourceName \<rightharpoonup> 'q)" where
  "resourceList MustParse c =
     (let rl = Map.empty;
          cpu = Spec_Resources_Cpu c
      in case (if cpu \<noteq> []
               then (case MustParse cpu of
                       Inl e \<Rightarrow> Inl e
                     | Inr q \<Rightarrow> Inr (rl(ResourceCPU \<mapsto> q)))
               else Inr rl) of
           Inl e \<Rightarrow> Inl e
         | Inr rl \<Rightarrow>
             (let memory = Spec_Resources_Memory c
              in if memory \<noteq> []
                 then (case MustParse memory of
                         Inl e \<Rightarrow> Inl e
                       | Inr q \<Rightarrow> Inr (rl(ResourceMemory \<mapsto> q)))
                 else Inr rl))"

definition container :: "(ResourceName \<rightharpoonup> 'q) \<Rightarrow> (string \<Rightarrow> string \<Rightarrow> string) \<Rightarrow> Cluster \<Rightarrow> 'q Container" where
  "container rl nm c =
     \<lparr>Container_Name = Metadata_Name c,
      Container_Image = dockerImage c,
      Container_ImagePullPolicy = PullAlways,
      Container_Resources = \<lparr>Requests = rl\<rparr>,
      Container_Ports =
        [\<lparr>ContainerPort_ContainerPort = 8008, ContainerPort_Protocol = ProtocolTCP\<rparr>,
         \<lparr>ContainerPort_ContainerPort = 5432, ContainerPort_Protocol = ProtocolTCP\<rparr>],
      Container_VolumeMounts =
        [\<lparr>VolumeMount_Name = ''pgdata'', VolumeMount_MountPath = ''/home/postgres/pgdata''\<rparr>],
      Container_Env = envVars nm c\<rparr>"

definition podSpec :: "(ResourceName \<rightharpoonup> 'q) \<Rightarrow> (string \<Rightarrow> string \<Rightarrow> string) \<Rightarrow> Cluster \<Rightarrow> 'q PodSpec" where
  "podSpec rl nm c =
     (let terminateGracePeriodSeconds = 30 in
      \<lparr>TerminationGracePeriodSeconds = Some terminateGracePeriodSeconds,
       PodSpec_Volumes =
         [\<lparr>Volume_Name = ''pgdata'',
           Volume_VolumeSource = \<lparr>EmptyDir = Some \<lparr>EmptyDir_Medium = []\<rparr>\<rparr>\<rparr>],
       PodSpec_Containers = [container rl nm c]\<rparr>)"

definition template :: "(ResourceName \<rightharpoonup> 'q) \<Rightarrow> (string \<Rightarrow> string \<Rightarrow> string) \<Rightarrow> (string \<Rightarrow> string \<rightharpoonup> string) \<Rightarrow> Cluster \<Rightarrow> 'q PodTemplateSpec" where
  "template rl nm lab c =
     \<lparr>PodTemplateSpec_ObjectMeta =
        \<lparr>ObjectMeta_Name = [],
         ObjectMeta_Labels = labels lab c,
         ObjectMeta_Annotations = [''pod.alpha.kubernetes.io/initialized'' \<mapsto> ''true'']\<rparr>,
      PodTemplateSpec_Spec = podSpec rl nm c\<rparr>"

text \<open>
  The object of lines 127 to 137, or the panic of \<open>MustParse\<close>, which leaves the
  function before any object is built.
\<close>

definition statefulSet :: "(string \<Rightarrow> panic + 'q) \<Rightarrow> (string \<Rightarrow> string \<Rightarrow> string) \<Rightarrow> (string \<Rightarrow> string \<rightharpoonup> string) \<Rightarrow> Cluster \<Rightarrow> panic + 'q StatefulSet" where
  "statefulSet MustParse nm lab c =
     (let clusterName = Metadata_Name c
      in case resourceList MustParse c of
           Inl e \<Rightarrow> Inl e
         | Inr rl \<Rightarrow>
             Inr \<lparr>StatefulSet_ObjectMeta =
                    \<lparr>ObjectMeta_Name = clusterName,
                     ObjectMeta_Labels = labels lab c,
                     ObjectMeta_Annotations = Map.empty\<rparr>,
                  StatefulSet_Spec =
                    \<lparr>Replicas = Some (Spec_NumberOfInstances c),
                     ServiceName = clusterName,
                     Template = template rl nm lab c\<rparr>\<rparr>)"

text \<open>
  The operation: a panic leaves the state as it was and reaches the caller (\<open>Some\<close>);
  otherwise the object is submitted with \<open>Create\<close> and both results of the call are
  dropped (line 139).
\<close>

definition createStatefulSet :: "(string \<Rightarrow> panic + 'q) \<Rightarrow> (string \<Rightarrow> string \<Rightarrow> string) \<Rightarrow> (string \<Rightarrow> string \<rightharpoonup> string) \<Rightarrow> ('q call \<Rightarrow> 'p \<Rightarrow> kerr option \<times> 'p) \<Rightarrow> Cluster \<Rightarrow> ('p, 'q) State \<Rightarrow> panic option \<times> ('p, 'q) State" where
  "createStatefulSet MustParse nm lab api c st =
     (case statefulSet MustParse nm lab c of
        Inl e \<Rightarrow> (Some e, st)
      | Inr obj \<Rightarrow>
          (None, snd (invoke api (StatefulSetsCreate (config_Namespace c) obj) st)))"

section \<open>applySecrets\<close>

definition secret :: "(string \<Rightarrow> string \<Rightarrow> string) \<Rightarrow> (string \<Rightarrow> string \<rightharpoonup> string) \<Rightarrow> Cluster \<Rightarrow> pgUser \<Rightarrow> Secret" where
  "secret nm lab c user =
     \<lparr>Secret_ObjectMeta =
        \<lparr>ObjectMeta_Name = credentialSecretName nm c (username user),
         ObjectMeta_Labels = labels lab c,
         ObjectMeta_Annotations = Map.empty\<rparr>,
      Secret_Type = SecretTypeOpaque,
      Secret_Data = [''username'' \<mapsto> username user, ''password'' \<mapsto> password user]\<rparr>"

text \<open>The body of the loop, for one user.\<close>

definition applySecrets_body :: "(string \<Rightarrow> string \<Rightarrow> string) \<Rightarrow> (string \<Rightarrow> string \<rightharpoonup> string) \<Rightarrow> ('q call \<Rightarrow> 'p \<Rightarrow> kerr option \<times> 'p) \<Rightarrow> Cluster \<Rightarrow> pgUser \<Rightarrow> ('p, 'q) State \<Rightarrow> ('p, 'q) State" where
  "applySecrets_body nm lab api c user st =
     (let obj = secret nm lab c user;
          (err, st) = invoke api (SecretsCreate (config_Namespace c) obj) st
      in if IsKubernetesResourceAlreadyExistError err
         then (let (err, st) = invoke api (SecretsUpdate (config_Namespace c) obj) st
               in case err of
                    Some e \<Rightarrow> logger (Errorf ''Error while updating secret: %+v'' (ArgErr e)) st
                  | None \<Rightarrow> logger (Infof ''Secret updated: %+v'' (ArgSecret obj)) st)
         else (case err of
                 Some e \<Rightarrow> logger (Errorf ''Error while creating secret: %+v'' (ArgErr e)) st
               | None \<Rightarrow> logger (Infof ''Secret created: %+v'' (ArgSecret obj)) st))"

fun applySecrets_loop :: "(string \<Rightarrow> string \<Rightarrow> string) \<Rightarrow> (string \<Rightarrow> string \<rightharpoonup> string) \<Rightarrow> ('q call \<Rightarrow> 'p \<Rightarrow> kerr option \<times> 'p) \<Rightarrow> Cluster \<Rightarrow> pgUser list \<Rightarrow> ('p, 'q) State \<Rightarrow> ('p, 'q) State" where
  "applySecrets_loop nm lab api c [] st = st"
| "applySecrets_loop nm lab api c (user # users) st =
     applySecrets_loop nm lab api c users (applySecrets_body nm lab api c user st)"

definition applySecrets :: "(string \<Rightarrow> string \<Rightarrow> string) \<Rightarrow> (string \<Rightarrow> string \<rightharpoonup> string) \<Rightarrow> ('q call \<Rightarrow> 'p \<Rightarrow> kerr option \<times> 'p) \<Rightarrow> Cluster \<Rightarrow> ('p, 'q) State \<Rightarrow> ('p, 'q) State" where
  "applySecrets nm lab api c st = applySecrets_loop nm lab api c (pgUsers c) st"

section \<open>createService and createEndPoint\<close>

definition service :: "(string \<Rightarrow> string \<rightharpoonup> string) \<Rightarrow> Cluster \<Rightarrow> Service" where
  "service lab c =
     \<lparr>Service_ObjectMeta =
        \<lparr>ObjectMeta_Name = Metadata_Name c,
         ObjectMeta_Labels = labels lab c,
         ObjectMeta_Annotations = Map.empty\<rparr>,
      Service_Spec =
        \<lparr>ServiceSpec_Type = ServiceTypeClusterIP,
         ServiceSpec_Ports =
           [\<lparr>ServicePort_Port = 5432,
             ServicePort_TargetPort = \<lparr>IntOrString_Type = intstr_Int, IntVal = 5432, StrVal = []\<rparr>\<rparr>]\<rparr>\<rparr>"

definition createService :: "(string \<Rightarrow> string \<rightharpoonup> string) \<Rightarrow> ('q call \<Rightarrow> 'p \<Rightarrow> kerr option \<times> 'p) \<Rightarrow> Cluster \<Rightarrow> ('p, 'q) State \<Rightarrow> ('p, 'q) State" where
  "createService lab api c st =
     (let clusterName = Metadata_Name c;
          (err, st) = invoke api (ServicesGet (config_Namespace c) clusterName) st
      in if \<not> ResourceNotFound err
         then logger (Infof ''Service '%s' already exists'' (ArgString clusterName)) st
         else (let obj = service lab c;
                   (err, st) = invoke api (ServicesCreate (config_Namespace c) obj) st
               in case err of
                    Some e \<Rightarrow> logger (Errorf ''Error while creating service: %+v'' (ArgErr e)) st
                  | None \<Rightarrow> logger (Infof ''Service created: %+v'' (ArgService obj)) st))"

definition endPoint :: "(string \<Rightarrow> string \<rightharpoonup> string) \<Rightarrow> Cluster \<Rightarrow> Endpoints" where
  "endPoint lab c =
     \<lparr>Endpoints_ObjectMeta =
        \<lparr>ObjectMeta_Name = Metadata_Name c,
         ObjectMeta_Labels = labels lab c,
         ObjectMeta_Annotations = Map.empty\<rparr>\<rparr>"

definition createEndPoint :: "(string \<Rightarrow> string \<rightharpoonup> string) \<Rightarrow> ('q call \<Rightarrow> 'p \<Rightarrow> kerr option \<times> 'p) \<Rightarrow> Cluster \<Rightarrow> ('p, 'q) State \<Rightarrow> ('p, 'q) State" where
  "createEndPoint lab api c st =
     (let clusterName = Metadata_Name c;
          (err, st) = invoke api (EndpointsGet (config_Namespace c) clusterName) st
      in if \<not> ResourceNotFound err
         then logger (Infof ''Endpoint '%s' already exists'' (ArgString clusterName)) st
         else (let obj = endPoint lab c;
                   (err, st) = invoke api (EndpointsCreate (config_Namespace c) obj) st
               in case err of
                    Some e \<Rightarrow> logger (Errorf ''Error while creating endpoint: %+v'' (ArgErr e)) st
                  | None \<Rightarrow> logger (Infof ''Endpoint created: %+v'' (ArgEndpoints obj)) st))"

section \<open>A platform to run the operations on\<close>

text \<open>
  Modelled from the spec: the platform behind the orchestration client, which is not
  part of the repository. Section 6 gives the contract, per object kind and scoped by
  namespace: \<open>get(name)\<close> answers "not found" when there is no object of that name,
  \<open>create(object)\<close> answers "already exists" when there is one and stores the object
  otherwise, \<open>update(object)\<close> overwrites the stored object and can only fail with
  another error. The objects are keyed by namespace and name.
\<close>

record 'q Platform =
  secrets :: "string \<times> string \<rightharpoonup> Secret"
  services :: "string \<times> string \<rightharpoonup> Service"
  endpoints :: "string \<times> string \<rightharpoonup> Endpoints"
  statefulSets :: "string \<times> string \<rightharpoonup> 'q StatefulSet"

definition no_objects :: "'q Platform" where
  "no_objects =
     \<lparr>secrets = Map.empty, services = Map.empty, endpoints = Map.empty,
      statefulSets = Map.empty\<rparr>"

fun kube :: "'q call \<Rightarrow> 'q Platform \<Rightarrow> kerr option \<times> 'q Platform" where
  "kube (SecretsCreate ns obj) p =
     (let key = (ns, ObjectMeta_Name (Secret_ObjectMeta obj))
      in if secrets p key \<noteq> None then (Some AlreadyExists, p)
         else (None, p\<lparr>secrets := (secrets p)(key \<mapsto> obj)\<rparr>))"
| "kube (SecretsUpdate ns obj) p =
     (let key = (ns, ObjectMeta_Name (Secret_ObjectMeta obj))
      in if secrets p key = None then (Some (PlatformError ''no such secret''), p)
         else (None, p\<lparr>secrets := (secrets p)(key \<mapsto> obj)\<rparr>))"
| "kube (ServicesGet ns name) p =
     (if services p (ns, name) = None then (Some NotFound, p) else (None, p))"
| "kube (ServicesCreate ns obj) p =
     (let key = (ns, ObjectMeta_Name (Service_ObjectMeta obj))
      in if services p key \<noteq> None then (Some AlreadyExists, p)
         else (None, p\<lparr>services := (services p)(key \<mapsto> obj)\<rparr>))"
| "kube (EndpointsGet ns name) p =
     (if endpoints p (ns, name) = None then (Some NotFound, p) else (None, p))"
| "kube (EndpointsCreate ns obj) p =
     (let key = (ns, ObjectMeta_Name (Endpoints_ObjectMeta obj))
      in if endpoints p key \<noteq> None then (Some AlreadyExists, p)
         else (None, p\<lparr>endpoints := (endpoints p)(key \<mapsto> obj)\<rparr>))"
| "kube (StatefulSetsCreate ns obj) p =
     (let key = (ns, ObjectMeta_Name (StatefulSet_ObjectMeta obj))
      in if statefulSets p key \<noteq> None then (Some AlreadyExists, p)
         else (None, p\<lparr>statefulSets := (statefulSets p)(key \<mapsto> obj)\<rparr>))"

text \<open>
  A client whose calls fail where \<open>f\<close> says so, without reaching the platform, and go
  through to \<open>api\<close> otherwise.
\<close>

definition failing :: "('q call \<Rightarrow> kerr option) \<Rightarrow> ('q call \<Rightarrow> 'p \<Rightarrow> kerr option \<times> 'p) \<Rightarrow> 'q call \<Rightarrow> 'p \<Rightarrow> kerr option \<times> 'p" where
  "failing f api cl p = (case f cl of Some e \<Rightarrow> (Some e, p) | None \<Rightarrow> api cl p)"

definition start :: "'p \<Rightarrow> ('p, 'q) State" where
  "start p = \<lparr>platform = p, calls = [], log = []\<rparr>"

section \<open>Reading a trace\<close>

text \<open>The calls an operation added to the trace, and those among them that mutate.\<close>

definition new_calls :: "('p, 'q) State \<Rightarrow> ('p, 'q) State \<Rightarrow> ('q call \<times> kerr option) list" where
  "new_calls st st' = drop (length (calls st)) (calls st')"

definition new_log :: "('p, 'q) State \<Rightarrow> ('p, 'q) State \<Rightarrow> logentry list" where
  "new_log st st' = drop (length (log st)) (log st')"

fun is_create :: "'q call \<Rightarrow> bool" where
  "is_create (SecretsCreate ns obj) = True"
| "is_create (ServicesCreate ns obj) = True"
| "is_create (EndpointsCreate ns obj) = True"
| "is_create (StatefulSetsCreate ns obj) = True"
| "is_create cl = False"

fun is_update :: "'q call \<Rightarrow> bool" where
  "is_update (SecretsUpdate ns obj) = True"
| "is_update cl = False"

definition mutating :: "('q call \<times> kerr option) list \<Rightarrow> 'q call list" where
  "mutating tr = filter (\<lambda>cl. is_create cl \<or> is_update cl) (map fst tr)"

definition creates :: "('q call \<times> kerr option) list \<Rightarrow> 'q call list" where
  "creates tr = filter is_create (map fst tr)"

text \<open>The name and the label sets a call carries.\<close>

fun object_name :: "'q call \<Rightarrow> string" where
  "object_name (SecretsCreate ns obj) = ObjectMeta_Name (Secret_ObjectMeta obj)"
| "object_name (SecretsUpdate ns obj) = ObjectMeta_Name (Secret_ObjectMeta obj)"
| "object_name (ServicesGet ns name) = name"
| "object_name (ServicesCreate ns obj) = ObjectMeta_Name (Service_ObjectMeta obj)"
| "object_name (EndpointsGet ns name) = name"
| "object_name (EndpointsCreate ns obj) = ObjectMeta_Name (Endpoints_ObjectMeta obj)"
| "object_name (StatefulSetsCreate ns obj) = ObjectMeta_Name (StatefulSet_ObjectMeta obj)"

fun object_labels :: "'q call \<Rightarrow> (string \<rightharpoonup> string) list" where
  "object_labels (SecretsCreate ns obj) = [ObjectMeta_Labels (Secret_ObjectMeta obj)]"
| "object_labels (SecretsUpdate ns obj) = [ObjectMeta_Labels (Secret_ObjectMeta obj)]"
| "object_labels (ServicesGet ns name) = []"
| "object_labels (ServicesCreate ns obj) = [ObjectMeta_Labels (Service_ObjectMeta obj)]"
| "object_labels (EndpointsGet ns name) = []"
| "object_labels (EndpointsCreate ns obj) = [ObjectMeta_Labels (Endpoints_ObjectMeta obj)]"
| "object_labels (StatefulSetsCreate ns obj) =
     [ObjectMeta_Labels (StatefulSet_ObjectMeta obj),
      ObjectMeta_Labels (PodTemplateSpec_ObjectMeta (Template (StatefulSet_Spec obj)))]"

text \<open>
  A trace of \<open>applySecrets\<close> is well formed when every create answered "already
  exists" is followed at once by the update of the same secret in the same namespace, and
  no update occurs anywhere else.
\<close>

fun fallback_ok :: "('q call \<times> kerr option) list \<Rightarrow> bool" where
  "fallback_ok [] = True"
| "fallback_ok ((SecretsCreate ns obj, Some AlreadyExists) # rest) =
     (case rest of
        (SecretsUpdate ns' obj', r) # rest' \<Rightarrow> ns' = ns \<and> obj' = obj \<and> fallback_ok rest'
      | _ \<Rightarrow> False)"
| "fallback_ok ((SecretsCreate ns obj, r) # rest) = fallback_ok rest"
| "fallback_ok (x # rest) = False"

text \<open>The line of the log that reports a call on secrets and its outcome.\<close>

fun recorded :: "'q call \<times> kerr option \<Rightarrow> logentry list" where
  "recorded (SecretsCreate ns obj, Some AlreadyExists) = []"
| "recorded (SecretsCreate ns obj, Some e) =
     [Errorf ''Error while creating secret: %+v'' (ArgErr e)]"
| "recorded (SecretsCreate ns obj, None) = [Infof ''Secret created: %+v'' (ArgSecret obj)]"
| "recorded (SecretsUpdate ns obj, Some e) =
     [Errorf ''Error while updating secret: %+v'' (ArgErr e)]"
| "recorded (SecretsUpdate ns obj, None) = [Infof ''Secret updated: %+v'' (ArgSecret obj)]"
| "recorded x = []"

text \<open>
  The references into secrets among a container's environment variables: the variable,
  the secret's name and the key.
\<close>

definition secret_refs :: "EnvVar list \<Rightarrow> (string \<times> string \<times> string) list" where
  "secret_refs env =
     concat (map (\<lambda>e. case EnvVar_ValueFrom e of
                        None \<Rightarrow> []
                      | Some src \<Rightarrow>
                          (case SecretKeyRef src of
                             None \<Rightarrow> []
                           | Some sel \<Rightarrow>
                               [(EnvVar_Name e, LocalObjectReference_Name sel, SecretKeyRef_Key sel)]))
                 env)"

section \<open>A cluster to run the operations on\<close>

text \<open>
  The cluster of the spec's end-to-end example, with stand-ins for the three parameters:
  a quantity parser that knows two quantities and panics on any other string, a naming
  function and a label function.
\<close>

definition sample_MustParse :: "string \<Rightarrow> panic + nat" where
  "sample_MustParse str =
     (if str = ''1Gi'' then Inr 1073741824
      else if str = ''1'' then Inr 1
      else Inl (Panic str))"

definition sample_nm :: "string \<Rightarrow> string \<Rightarrow> string" where
  "sample_nm clusterName userName = userName @ ''.'' @ clusterName"

definition sample_lab :: "string \<Rightarrow> string \<rightharpoonup> string" where
  "sample_lab clusterName = [''cluster'' \<mapsto> clusterName]"

definition acid_test :: Cluster where
  "acid_test =
     \<lparr>Metadata_Name = ''acid-test'', Spec_NumberOfInstances = 2,
      Spec_Resources_Cpu = [], Spec_Resources_Memory = ''1Gi'',
      etcdHost = ''etcd.default'', dockerImage = ''example/pg:1'',
      pgUsers = [\<lparr>username = ''superuser'', password = ''s3cret''\<rparr>,
                 \<lparr>username = ''replication'', password = ''r3pl''\<rparr>],
      config_Namespace = ''default''\<rparr>"

text \<open>
  A client that times out on every call about the superuser's secret, and a platform
  that already holds the replication user's secret with an old password.
\<close>

definition superuser_fails :: "nat call \<Rightarrow> kerr option" where
  "superuser_fails cl =
     (if object_name cl = ''superuser.acid-test'' then Some (PlatformError ''timeout'') else None)"

definition replication_exists :: "nat Platform" where
  "replication_exists =
     no_objects\<lparr>secrets :=
       [(''default'', ''replication.acid-test'') \<mapsto>
          secret sample_nm sample_lab acid_test \<lparr>username = ''replication'', password = ''old''\<rparr>]\<rparr>"

section \<open>The panic of a malformed quantity\<close>

lemma resourceList_cpu_panic:
  "Spec_Resources_Cpu c \<noteq> [] \<Longrightarrow> MustParse (Spec_Resources_Cpu c) = Inl e \<Longrightarrow>
   resourceList MustParse c = Inl e"
  by (simp add: resourceList_def Let_def)

lemma resourceList_memory_panic:
  "Spec_Resources_Cpu c = [] \<or> MustParse (Spec_Resources_Cpu c) = Inr q \<Longrightarrow>
   Spec_Resources_Memory c \<noteq> [] \<Longrightarrow> MustParse (Spec_Resources_Memory c) = Inl e \<Longrightarrow>
   resourceList MustParse c = Inl e"
  by (auto simp add: resourceList_def Let_def)

lemma resourceList_dom:
  "resourceList MustParse c = Inr rl \<Longrightarrow>
   (ResourceCPU \<in> dom rl \<longleftrightarrow> Spec_Resources_Cpu c \<noteq> []) \<and>
   (ResourceMemory \<in> dom rl \<longleftrightarrow> Spec_Resources_Memory c \<noteq> [])"
  by (auto simp add: resourceList_def Let_def split: if_splits sum.splits)

lemma resourceList_values:
  "resourceList MustParse c = Inr rl \<Longrightarrow>
   (\<forall>q. rl ResourceCPU = Some q \<longrightarrow> MustParse (Spec_Resources_Cpu c) = Inr q) \<and>
   (\<forall>q. rl ResourceMemory = Some q \<longrightarrow> MustParse (Spec_Resources_Memory c) = Inr q)"
  by (auto simp add: resourceList_def Let_def split: if_splits sum.splits)

lemma statefulSet_Inr:
  "statefulSet MustParse nm lab c = Inr obj \<Longrightarrow>
   \<exists>rl. resourceList MustParse c = Inr rl \<and>
     obj = \<lparr>StatefulSet_ObjectMeta =
                    \<lparr>ObjectMeta_Name = Metadata_Name c,
                     ObjectMeta_Labels = labels lab c,
                     ObjectMeta_Annotations = Map.empty\<rparr>,
                  StatefulSet_Spec =
                    \<lparr>Replicas = Some (Spec_NumberOfInstances c),
                     ServiceName = Metadata_Name c,
                     Template = template rl nm lab c\<rparr>\<rparr>"
  by (auto simp add: statefulSet_def Let_def split: sum.splits)

section \<open>The calls and the log of each operation\<close>

lemma invoke_eq:
  "invoke api cl st =
     (fst (api cl (platform st)),
      st\<lparr>platform := snd (api cl (platform st)),
         calls := calls st @ [(cl, fst (api cl (platform st)))]\<rparr>)"
  by (simp add: invoke_def split: prod.splits)

lemma new_calls_append: "calls st' = calls st @ tr \<Longrightarrow> new_calls st st' = tr"
  by (simp add: new_calls_def)

lemma new_log_append: "log st' = log st @ l \<Longrightarrow> new_log st st' = l"
  by (simp add: new_log_def)

lemma applySecrets_body_trace:
  "\<exists>tr. calls (applySecrets_body nm lab api c user st) = calls st @ tr \<and>
        log (applySecrets_body nm lab api c user st) = log st @ concat (map recorded tr) \<and>
        creates tr = [SecretsCreate (config_Namespace c) (secret nm lab c user)] \<and>
        set (map fst tr) \<subseteq> {SecretsCreate (config_Namespace c) (secret nm lab c user),
                             SecretsUpdate (config_Namespace c) (secret nm lab c user)} \<and>
        (\<forall>rest. fallback_ok (tr @ rest) = fallback_ok rest)"
proof (cases "fst (api (SecretsCreate (config_Namespace c) (secret nm lab c user)) (platform st)) = Some AlreadyExists")
  case True
  then show ?thesis
    by (auto simp add: applySecrets_body_def invoke_eq logger_def Let_def creates_def
        IsKubernetesResourceAlreadyExistError_def split: option.splits)
next
  case False
  then show ?thesis
    by (cases "fst (api (SecretsCreate (config_Namespace c) (secret nm lab c user)) (platform st))";
        cases "the (fst (api (SecretsCreate (config_Namespace c) (secret nm lab c user)) (platform st)))")
       (auto simp add: applySecrets_body_def invoke_eq logger_def Let_def creates_def
        IsKubernetesResourceAlreadyExistError_def split: option.splits)
qed

lemma applySecrets_loop_trace:
  "\<exists>tr. calls (applySecrets_loop nm lab api c users st) = calls st @ tr \<and>
        log (applySecrets_loop nm lab api c users st) = log st @ concat (map recorded tr) \<and>
        creates tr = map (\<lambda>user. SecretsCreate (config_Namespace c) (secret nm lab c user)) users \<and>
        set (map fst tr) \<subseteq> (\<lambda>user. SecretsCreate (config_Namespace c) (secret nm lab c user)) ` set users \<union>
                          (\<lambda>user. SecretsUpdate (config_Namespace c) (secret nm lab c user)) ` set users \<and>
        fallback_ok tr"
proof (induction users arbitrary: st)
  case Nil
  show ?case by (simp add: creates_def)
next
  case (Cons user users)
  obtain tr1 where tr1:
    "calls (applySecrets_body nm lab api c user st) = calls st @ tr1"
    "log (applySecrets_body nm lab api c user st) = log st @ concat (map recorded tr1)"
    "creates tr1 = [SecretsCreate (config_Namespace c) (secret nm lab c user)]"
    "set (map fst tr1) \<subseteq> {SecretsCreate (config_Namespace c) (secret nm lab c user),
                             SecretsUpdate (config_Namespace c) (secret nm lab c user)}"
    "\<forall>rest. fallback_ok (tr1 @ rest) = fallback_ok rest"
    using applySecrets_body_trace [of nm lab api c user st] by blast
  obtain tr2 where tr2:
    "calls (applySecrets_loop nm lab api c users (applySecrets_body nm lab api c user st)) =
       calls (applySecrets_body nm lab api c user st) @ tr2"
    "log (applySecrets_loop nm lab api c users (applySecrets_body nm lab api c user st)) =
       log (applySecrets_body nm lab api c user st) @ concat (map recorded tr2)"
    "creates tr2 = map (\<lambda>user. SecretsCreate (config_Namespace c) (secret nm lab c user)) users"
    "set (map fst tr2) \<subseteq> (\<lambda>user. SecretsCreate (config_Namespace c) (secret nm lab c user)) ` set users \<union>
                          (\<lambda>user. SecretsUpdate (config_Namespace c) (secret nm lab c user)) ` set users"
    "fallback_ok tr2"
    using Cons.IH [of "applySecrets_body nm lab api c user st"] by blast
  have c12: "creates (tr1 @ tr2) = creates tr1 @ creates tr2"
    by (simp add: creates_def)
  have s12: "set (map fst (tr1 @ tr2)) \<subseteq>
      (\<lambda>user. SecretsCreate (config_Namespace c) (secret nm lab c user)) ` set (user # users) \<union>
      (\<lambda>user. SecretsUpdate (config_Namespace c) (secret nm lab c user)) ` set (user # users)"
    using tr1(4) tr2(4) by auto
  show ?case
    apply (rule exI [of _ "tr1 @ tr2"])
    using tr1(1,2,3,5) tr2(1,2,3,5) c12 s12 by simp
qed

lemma applySecrets_new_calls:
  "creates (new_calls st (applySecrets nm lab api c st)) =
     map (\<lambda>user. SecretsCreate (config_Namespace c) (secret nm lab c user)) (pgUsers c) \<and>
   fallback_ok (new_calls st (applySecrets nm lab api c st)) \<and>
   new_log st (applySecrets nm lab api c st) =
     concat (map recorded (new_calls st (applySecrets nm lab api c st))) \<and>
   set (map fst (new_calls st (applySecrets nm lab api c st))) \<subseteq>
     (\<lambda>user. SecretsCreate (config_Namespace c) (secret nm lab c user)) ` set (pgUsers c) \<union>
     (\<lambda>user. SecretsUpdate (config_Namespace c) (secret nm lab c user)) ` set (pgUsers c)"
proof -
  obtain tr where tr:
    "calls (applySecrets nm lab api c st) = calls st @ tr"
    "log (applySecrets nm lab api c st) = log st @ concat (map recorded tr)"
    "creates tr = map (\<lambda>user. SecretsCreate (config_Namespace c) (secret nm lab c user)) (pgUsers c)"
    "set (map fst tr) \<subseteq> (\<lambda>user. SecretsCreate (config_Namespace c) (secret nm lab c user)) ` set (pgUsers c) \<union>
                          (\<lambda>user. SecretsUpdate (config_Namespace c) (secret nm lab c user)) ` set (pgUsers c)"
    "fallback_ok tr"
    unfolding applySecrets_def
    using applySecrets_loop_trace [of nm lab api c "pgUsers c" st] by blast
  have "new_calls st (applySecrets nm lab api c st) = tr"
    using tr(1) by (rule new_calls_append)
  moreover have "new_log st (applySecrets nm lab api c st) = concat (map recorded tr)"
    using tr(2) by (rule new_log_append)
  ultimately show ?thesis using tr(3,4,5) by simp
qed

lemma createService_calls:
  "calls (createService lab api c st) = calls st @
     (if fst (api (ServicesGet (config_Namespace c) (Metadata_Name c)) (platform st)) = Some NotFound
      then [(ServicesGet (config_Namespace c) (Metadata_Name c), Some NotFound),
            (ServicesCreate (config_Namespace c) (service lab c),
             fst (api (ServicesCreate (config_Namespace c) (service lab c))
                    (snd (api (ServicesGet (config_Namespace c) (Metadata_Name c)) (platform st)))))]
      else [(ServicesGet (config_Namespace c) (Metadata_Name c),
             fst (api (ServicesGet (config_Namespace c) (Metadata_Name c)) (platform st)))])"
  by (simp add: createService_def invoke_eq logger_def Let_def ResourceNotFound_def
      split: option.splits)

lemma createEndPoint_calls:
  "calls (createEndPoint lab api c st) = calls st @
     (if fst (api (EndpointsGet (config_Namespace c) (Metadata_Name c)) (platform st)) = Some NotFound
      then [(EndpointsGet (config_Namespace c) (Metadata_Name c), Some NotFound),
            (EndpointsCreate (config_Namespace c) (endPoint lab c),
             fst (api (EndpointsCreate (config_Namespace c) (endPoint lab c))
                    (snd (api (EndpointsGet (config_Namespace c) (Metadata_Name c)) (platform st)))))]
      else [(EndpointsGet (config_Namespace c) (Metadata_Name c),
             fst (api (EndpointsGet (config_Namespace c) (Metadata_Name c)) (platform st)))])"
  by (simp add: createEndPoint_def invoke_eq logger_def Let_def ResourceNotFound_def
      split: option.splits)

lemma createService_new_calls:
  "map fst (new_calls st (createService lab api c st)) =
     ServicesGet (config_Namespace c) (Metadata_Name c) #
     (if fst (api (ServicesGet (config_Namespace c) (Metadata_Name c)) (platform st)) = Some NotFound
      then [ServicesCreate (config_Namespace c) (service lab c)] else [])"
  by (simp add: new_calls_append [OF createService_calls])

lemma createEndPoint_new_calls:
  "map fst (new_calls st (createEndPoint lab api c st)) =
     EndpointsGet (config_Namespace c) (Metadata_Name c) #
     (if fst (api (EndpointsGet (config_Namespace c) (Metadata_Name c)) (platform st)) = Some NotFound
      then [EndpointsCreate (config_Namespace c) (endPoint lab c)] else [])"
  by (simp add: new_calls_append [OF createEndPoint_calls])

lemma createService_platform:
  "platform (createService lab api c st) =
     (if fst (api (ServicesGet (config_Namespace c) (Metadata_Name c)) (platform st)) = Some NotFound
      then snd (api (ServicesCreate (config_Namespace c) (service lab c))
                    (snd (api (ServicesGet (config_Namespace c) (Metadata_Name c)) (platform st))))
      else snd (api (ServicesGet (config_Namespace c) (Metadata_Name c)) (platform st)))"
  by (simp add: createService_def invoke_eq logger_def Let_def ResourceNotFound_def
      split: option.splits)

lemma createEndPoint_platform:
  "platform (createEndPoint lab api c st) =
     (if fst (api (EndpointsGet (config_Namespace c) (Metadata_Name c)) (platform st)) = Some NotFound
      then snd (api (EndpointsCreate (config_Namespace c) (endPoint lab c))
                    (snd (api (EndpointsGet (config_Namespace c) (Metadata_Name c)) (platform st))))
      else snd (api (EndpointsGet (config_Namespace c) (Metadata_Name c)) (platform st)))"
  by (simp add: createEndPoint_def invoke_eq logger_def Let_def ResourceNotFound_def
      split: option.splits)

lemma createService_twice:
  "services (platform (createService lab kube c (createService lab kube c (start (no_objects :: 'q Platform))))) =
     [(config_Namespace c, Metadata_Name c) \<mapsto> service lab c] \<and>
   mutating (new_calls (createService lab kube c (start (no_objects :: 'q Platform)))
               (createService lab kube c (createService lab kube c (start (no_objects :: 'q Platform))))) = []"
proof -
  have p1: "services (platform (createService lab kube c (start (no_objects :: 'q Platform)))) =
      [(config_Namespace c, Metadata_Name c) \<mapsto> service lab c]"
    by (simp add: createService_platform start_def no_objects_def service_def)
  have g2: "fst (kube (ServicesGet (config_Namespace c) (Metadata_Name c))
       (platform (createService lab kube c (start (no_objects :: 'q Platform))))) = None"
    by (simp add: p1)
  have "map fst (new_calls (createService lab kube c (start (no_objects :: 'q Platform)))
               (createService lab kube c (createService lab kube c (start (no_objects :: 'q Platform))))) =
      [ServicesGet (config_Namespace c) (Metadata_Name c)]"
    by (simp only: createService_new_calls g2) simp
  then have "mutating (new_calls (createService lab kube c (start (no_objects :: 'q Platform)))
               (createService lab kube c (createService lab kube c (start (no_objects :: 'q Platform))))) = []"
    by (simp add: mutating_def)
  moreover have "services (platform (createService lab kube c (createService lab kube c (start (no_objects :: 'q Platform))))) =
     [(config_Namespace c, Metadata_Name c) \<mapsto> service lab c]"
    by (simp only: createService_platform [of lab kube c "createService lab kube c (start no_objects)"] g2)
       (simp add: p1)
  ultimately show ?thesis by simp
qed

lemma statefulSet_valid:
  assumes "Spec_Resources_Cpu c = [] \<or> (\<exists>q. MustParse (Spec_Resources_Cpu c) = Inr q)"
    and "Spec_Resources_Memory c = [] \<or> (\<exists>q. MustParse (Spec_Resources_Memory c) = Inr q)"
  shows "\<exists>obj. statefulSet MustParse nm lab c = Inr obj"
  using assms by (auto simp add: statefulSet_def resourceList_def Let_def)

lemma createStatefulSet_Inr:
  assumes "statefulSet MustParse nm lab c = Inr obj"
  shows "createStatefulSet MustParse nm lab api c st =
     (None, st\<lparr>platform := snd (api (StatefulSetsCreate (config_Namespace c) obj) (platform st)),
               calls := calls st @
                 [(StatefulSetsCreate (config_Namespace c) obj,
                   fst (api (StatefulSetsCreate (config_Namespace c) obj) (platform st)))]\<rparr>)"
  using assms by (simp add: createStatefulSet_def invoke_eq)

lemma createEndPoint_twice:
  "endpoints (platform (createEndPoint lab kube c (createEndPoint lab kube c (start (no_objects :: 'q Platform))))) =
     [(config_Namespace c, Metadata_Name c) \<mapsto> endPoint lab c] \<and>
   mutating (new_calls (createEndPoint lab kube c (start (no_objects :: 'q Platform)))
               (createEndPoint lab kube c (createEndPoint lab kube c (start (no_objects :: 'q Platform))))) = []"
proof -
  have p1: "endpoints (platform (createEndPoint lab kube c (start (no_objects :: 'q Platform)))) =
      [(config_Namespace c, Metadata_Name c) \<mapsto> endPoint lab c]"
    by (simp add: createEndPoint_platform start_def no_objects_def endPoint_def)
  have g2: "fst (kube (EndpointsGet (config_Namespace c) (Metadata_Name c))
       (platform (createEndPoint lab kube c (start (no_objects :: 'q Platform))))) = None"
    by (simp add: p1)
  have "map fst (new_calls (createEndPoint lab kube c (start (no_objects :: 'q Platform)))
               (createEndPoint lab kube c (createEndPoint lab kube c (start (no_objects :: 'q Platform))))) =
      [EndpointsGet (config_Namespace c) (Metadata_Name c)]"
    by (simp only: createEndPoint_new_calls g2) simp
  then have "mutating (new_calls (createEndPoint lab kube c (start (no_objects :: 'q Platform)))
               (createEndPoint lab kube c (createEndPoint lab kube c (start (no_objects :: 'q Platform))))) = []"
    by (simp add: mutating_def)
  moreover have "endpoints (platform (createEndPoint lab kube c (createEndPoint lab kube c (start (no_objects :: 'q Platform))))) =
     [(config_Namespace c, Metadata_Name c) \<mapsto> endPoint lab c]"
    by (simp only: createEndPoint_platform [of lab kube c "createEndPoint lab kube c (start no_objects)"] g2)
       (simp add: p1)
  ultimately show ?thesis by simp
qed

section \<open>The synthesized objects\<close>

lemma statefulSet_containers:
  assumes "statefulSet MustParse nm lab c = Inr obj"
  shows "\<exists>rl. resourceList MustParse c = Inr rl \<and>
     PodSpec_Containers (PodTemplateSpec_Spec (Template (StatefulSet_Spec obj))) =
       [container rl nm c]"
  using statefulSet_Inr [OF assms] by (auto simp add: template_def podSpec_def Let_def)

lemma envVars_names:
  "map EnvVar_Name (envVars nm c) =
     [''SCOPE'', ''PGROOT'', ''ETCD_HOST'', ''POD_IP'', ''POD_NAMESPACE'',
      ''PGPASSWORD_SUPERUSER'', ''PGPASSWORD_STANDBY'']"
  by (simp add: envVars_def Let_def)

lemma envVars_values:
  "map EnvVar_Value (envVars nm c) =
     [Metadata_Name c, ''/home/postgres/pgdata/pgroot'', etcdHost c, [], [], [], []]"
  by (simp add: envVars_def Let_def)

lemma envVars_sources:
  "map EnvVar_ValueFrom (envVars nm c) =
     [None, None, None,
      Some \<lparr>FieldRef = Some \<lparr>FieldRef_APIVersion = ''v1'', FieldRef_FieldPath = ''status.podIP''\<rparr>,
            SecretKeyRef = None\<rparr>,
      Some \<lparr>FieldRef = Some \<lparr>FieldRef_APIVersion = ''v1'',
                                FieldRef_FieldPath = ''metadata.namespace''\<rparr>,
            SecretKeyRef = None\<rparr>,
      Some \<lparr>FieldRef = None,
            SecretKeyRef = Some \<lparr>
              LocalObjectReference_Name =
                ObjectMeta_Name (Secret_ObjectMeta
                  (secret nm lab c \<lparr>username = ''superuser'', password = pw\<rparr>)),
              SecretKeyRef_Key = ''password''\<rparr>\<rparr>,
      Some \<lparr>FieldRef = None,
            SecretKeyRef = Some \<lparr>
              LocalObjectReference_Name =
                ObjectMeta_Name (Secret_ObjectMeta
                  (secret nm lab c \<lparr>username = ''replication'', password = pw'\<rparr>)),
              SecretKeyRef_Key = ''password''\<rparr>\<rparr>]"
  by (simp add: envVars_def Let_def secret_def)

lemma resourceList_pgUsers:
  "resourceList MustParse (c\<lparr>pgUsers := users\<rparr>) = resourceList MustParse c"
  by (simp add: resourceList_def Let_def split: sum.splits)

lemma template_pgUsers:
  "template rl nm lab (c\<lparr>pgUsers := users\<rparr>) = template rl nm lab c"
  by (simp add: template_def podSpec_def container_def envVars_def labels_def
      credentialSecretName_def Let_def)

lemma statefulSet_pgUsers:
  "statefulSet MustParse nm lab (c\<lparr>pgUsers := users\<rparr>) = statefulSet MustParse nm lab c"
  by (simp add: statefulSet_def resourceList_pgUsers template_pgUsers labels_def Let_def
      split: sum.splits)

lemma createStatefulSet_labels:
  "set (concat (map (object_labels \<circ> fst)
      (new_calls st (snd (createStatefulSet MustParse nm lab api c st))))) \<subseteq> {labels lab c}"
proof (cases "statefulSet MustParse nm lab c")
  case (Inl e)
  then show ?thesis
    by (simp add: createStatefulSet_def new_calls_def)
next
  case (Inr obj)
  have "object_labels (StatefulSetsCreate (config_Namespace c) obj) = [labels lab c, labels lab c]"
    using statefulSet_Inr [OF Inr] by (auto simp add: template_def)
  then show ?thesis
    by (simp add: createStatefulSet_Inr [OF Inr] new_calls_def)
qed

lemma applySecrets_labels:
  "set (concat (map (object_labels \<circ> fst)
      (new_calls st (applySecrets nm lab api c st)))) \<subseteq> {labels lab c}"
proof -
  have "\<And>cl. cl \<in> set (map fst (new_calls st (applySecrets nm lab api c st))) \<Longrightarrow>
      object_labels cl = [labels lab c]"
  proof -
    fix cl
    assume "cl \<in> set (map fst (new_calls st (applySecrets nm lab api c st)))"
    then have "cl \<in> (\<lambda>user. SecretsCreate (config_Namespace c) (secret nm lab c user)) ` set (pgUsers c) \<union>
         (\<lambda>user. SecretsUpdate (config_Namespace c) (secret nm lab c user)) ` set (pgUsers c)"
      using applySecrets_new_calls [of st nm lab api c] by blast
    then show "object_labels cl = [labels lab c]"
      by (auto simp add: secret_def)
  qed
  then show ?thesis by auto
qed

lemma createService_labels:
  "set (concat (map (object_labels \<circ> fst)
      (new_calls st (createService lab api c st)))) \<subseteq> {labels lab c}"
proof -
  have "concat (map (object_labels \<circ> fst) (new_calls st (createService lab api c st))) =
      concat (map object_labels (map fst (new_calls st (createService lab api c st))))"
    by simp
  then show ?thesis
    unfolding createService_new_calls by (simp add: service_def)
qed

lemma createEndPoint_labels:
  "set (concat (map (object_labels \<circ> fst)
      (new_calls st (createEndPoint lab api c st)))) \<subseteq> {labels lab c}"
proof -
  have "concat (map (object_labels \<circ> fst) (new_calls st (createEndPoint lab api c st))) =
      concat (map object_labels (map fst (new_calls st (createEndPoint lab api c st))))"
    by simp
  then show ?thesis
    unfolding createEndPoint_new_calls by (simp add: endPoint_def)
qed

lemma secret_name:
  "ObjectMeta_Name (Secret_ObjectMeta (secret nm lab c user)) = nm (Metadata_Name c) (username user)"
  by (simp add: secret_def credentialSecretName_def)

lemma secret_refs_envVars:
  "secret_refs (envVars nm c) =
     [(''PGPASSWORD_SUPERUSER'', nm (Metadata_Name c) ''superuser'', ''password''),
      (''PGPASSWORD_STANDBY'', nm (Metadata_Name c) ''replication'', ''password'')]"
  by (simp add: secret_refs_def envVars_def credentialSecretName_def Let_def)

lemma applySecrets_names:
  "map object_name (creates (new_calls st (applySecrets nm lab api c st))) =
     map (\<lambda>user. nm (Metadata_Name c) (username user)) (pgUsers c)"
proof -
  have "creates (new_calls st (applySecrets nm lab api c st)) =
     map (\<lambda>user. SecretsCreate (config_Namespace c) (secret nm lab c user)) (pgUsers c)"
    using applySecrets_new_calls [of st nm lab api c] by blast
  then show ?thesis
    by (simp add: comp_def secret_name)
qed

lemma statefulSet_env:
  assumes "statefulSet MustParse nm lab c = Inr obj"
  shows "map Container_Env (PodSpec_Containers (PodTemplateSpec_Spec (Template (StatefulSet_Spec obj)))) =
     [envVars nm c]"
  using statefulSet_containers [OF assms] by (auto simp add: container_def)

section \<open>The claims\<close>

subsection \<open>C1: a malformed quantity\<close>

text \<open>
  C1, as amended. If the spec's CPU string is not empty and \<open>MustParse\<close> panics on it,
  or if \<open>MustParse\<close> panics on the non-empty memory string after the CPU string was
  empty or parsed, then \<open>createStatefulSet\<close> ends with that panic, which reaches the
  caller. The panic is the one \<open>MustParse\<close> raises for the string, so it is a function
  of the string alone. No StatefulSet (hence no container) is built, and the state is
  untouched: no call reaches the platform and nothing is logged.
\<close>

theorem createStatefulSet_malformed_quantity:
  assumes "(Spec_Resources_Cpu c \<noteq> [] \<and> MustParse (Spec_Resources_Cpu c) = Inl e) \<or>
     ((Spec_Resources_Cpu c = [] \<or> (\<exists>q. MustParse (Spec_Resources_Cpu c) = Inr q)) \<and>
      Spec_Resources_Memory c \<noteq> [] \<and> MustParse (Spec_Resources_Memory c) = Inl e)"
  shows "statefulSet MustParse nm lab c = Inl e \<and>
     createStatefulSet MustParse nm lab api c st = (Some e, st)"
proof -
  from assms have "resourceList MustParse c = Inl e"
    using resourceList_cpu_panic resourceList_memory_panic by metis
  then show ?thesis
    by (simp add: statefulSet_def createStatefulSet_def)
qed

text \<open>
  The theorem at the spec's example, CPU \<open>not-a-quantity\<close>, and at a malformed memory
  string behind a well-formed CPU string.
\<close>

theorem createStatefulSet_malformed_quantity_witness:
  "createStatefulSet sample_MustParse sample_nm sample_lab kube
     (acid_test\<lparr>Spec_Resources_Cpu := ''not-a-quantity''\<rparr>) (start no_objects) =
   (Some (Panic ''not-a-quantity''), start no_objects) \<and>
   createStatefulSet sample_MustParse sample_nm sample_lab kube
     (acid_test\<lparr>Spec_Resources_Cpu := ''1'', Spec_Resources_Memory := ''1 Gi''\<rparr>) (start no_objects) =
   (Some (Panic ''1 Gi''), start no_objects)"
proof -
  have cpu: "(Spec_Resources_Cpu (acid_test\<lparr>Spec_Resources_Cpu := ''not-a-quantity''\<rparr>) \<noteq> [] \<and>
       sample_MustParse (Spec_Resources_Cpu (acid_test\<lparr>Spec_Resources_Cpu := ''not-a-quantity''\<rparr>)) =
         Inl (Panic ''not-a-quantity'')) \<or>
     ((Spec_Resources_Cpu (acid_test\<lparr>Spec_Resources_Cpu := ''not-a-quantity''\<rparr>) = [] \<or>
       (\<exists>q. sample_MustParse (Spec_Resources_Cpu (acid_test\<lparr>Spec_Resources_Cpu := ''not-a-quantity''\<rparr>)) = Inr q)) \<and>
      Spec_Resources_Memory (acid_test\<lparr>Spec_Resources_Cpu := ''not-a-quantity''\<rparr>) \<noteq> [] \<and>
      sample_MustParse (Spec_Resources_Memory (acid_test\<lparr>Spec_Resources_Cpu := ''not-a-quantity''\<rparr>)) =
        Inl (Panic ''not-a-quantity''))"
    by (simp add: sample_MustParse_def)
  have mem: "(Spec_Resources_Cpu (acid_test\<lparr>Spec_Resources_Cpu := ''1'', Spec_Resources_Memory := ''1 Gi''\<rparr>) \<noteq> [] \<and>
       sample_MustParse (Spec_Resources_Cpu (acid_test\<lparr>Spec_Resources_Cpu := ''1'', Spec_Resources_Memory := ''1 Gi''\<rparr>)) =
         Inl (Panic ''1 Gi'')) \<or>
     ((Spec_Resources_Cpu (acid_test\<lparr>Spec_Resources_Cpu := ''1'', Spec_Resources_Memory := ''1 Gi''\<rparr>) = [] \<or>
       (\<exists>q. sample_MustParse (Spec_Resources_Cpu (acid_test\<lparr>Spec_Resources_Cpu := ''1'', Spec_Resources_Memory := ''1 Gi''\<rparr>)) = Inr q)) \<and>
      Spec_Resources_Memory (acid_test\<lparr>Spec_Resources_Cpu := ''1'', Spec_Resources_Memory := ''1 Gi''\<rparr>) \<noteq> [] \<and>
      sample_MustParse (Spec_Resources_Memory (acid_test\<lparr>Spec_Resources_Cpu := ''1'', Spec_Resources_Memory := ''1 Gi''\<rparr>)) =
        Inl (Panic ''1 Gi''))"
    by (simp add: sample_MustParse_def)
  show ?thesis
    using createStatefulSet_malformed_quantity [OF cpu, of sample_nm sample_lab kube "start no_objects"]
      createStatefulSet_malformed_quantity [OF mem, of sample_nm sample_lab kube "start no_objects"]
    by simp
qed

text \<open>
  The claim as first stated asks for an error that names the offending field. The same
  malformed string gives the same panic whether it is the CPU or the memory string, so
  the field cannot be read off the error.
\<close>

theorem malformed_quantity_field_not_named:
  "fst (createStatefulSet sample_MustParse sample_nm sample_lab kube
     (acid_test\<lparr>Spec_Resources_Cpu := ''not-a-quantity'', Spec_Resources_Memory := []\<rparr>)
     (start no_objects)) = Some (Panic ''not-a-quantity'') \<and>
   fst (createStatefulSet sample_MustParse sample_nm sample_lab kube
     (acid_test\<lparr>Spec_Resources_Cpu := [], Spec_Resources_Memory := ''not-a-quantity''\<rparr>)
     (start no_objects)) = Some (Panic ''not-a-quantity'')"
  by (simp add: createStatefulSet_def statefulSet_def resourceList_def sample_MustParse_def)

subsection \<open>C2: the name of a credential secret\<close>

text \<open>
  C2. The secret \<open>applySecrets\<close> builds for a user is named by the naming function
  applied to the cluster's name and to the user's name, which is the role identifier the
  code has (\<open>string(user.username)\<close>). So the names of the secrets it submits, in
  any state and on any client, are the images of the users in the order processed, each
  name depending on its own user only; two users of equal name in clusters of equal name
  get the same secret name whatever else differs. The container's environment refers to
  exactly two secrets, by the key \<open>password\<close>: \<open>PGPASSWORD_SUPERUSER\<close> to the
  name of the secret of a user named \<open>superuser\<close>, and \<open>PGPASSWORD_STANDBY\<close> to
  that of a user named \<open>replication\<close>.
\<close>

theorem secret_name_deterministic:
  "ObjectMeta_Name (Secret_ObjectMeta (secret nm lab c user)) =
     nm (Metadata_Name c) (username user) \<and>
   map object_name (creates (new_calls st (applySecrets nm lab api c st))) =
     map (\<lambda>user. nm (Metadata_Name c) (username user)) (pgUsers c) \<and>
   (Metadata_Name c' = Metadata_Name c \<and> username user' = username user \<longrightarrow>
      ObjectMeta_Name (Secret_ObjectMeta (secret nm lab' c' user')) =
      ObjectMeta_Name (Secret_ObjectMeta (secret nm lab c user))) \<and>
   (statefulSet MustParse nm lab c = Inr obj \<longrightarrow>
      map (secret_refs \<circ> Container_Env)
        (PodSpec_Containers (PodTemplateSpec_Spec (Template (StatefulSet_Spec obj)))) =
      [[(''PGPASSWORD_SUPERUSER'', nm (Metadata_Name c) ''superuser'', ''password''),
        (''PGPASSWORD_STANDBY'', nm (Metadata_Name c) ''replication'', ''password'')]]) \<and>
   (username user = ''superuser'' \<longrightarrow>
      (''PGPASSWORD_SUPERUSER'', ObjectMeta_Name (Secret_ObjectMeta (secret nm lab c user)),
       ''password'') \<in> set (secret_refs (envVars nm c))) \<and>
   (username user = ''replication'' \<longrightarrow>
      (''PGPASSWORD_STANDBY'', ObjectMeta_Name (Secret_ObjectMeta (secret nm lab c user)),
       ''password'') \<in> set (secret_refs (envVars nm c)))"
proof -
  have env: "statefulSet MustParse nm lab c = Inr obj \<longrightarrow>
      map (secret_refs \<circ> Container_Env)
        (PodSpec_Containers (PodTemplateSpec_Spec (Template (StatefulSet_Spec obj)))) =
      [[(''PGPASSWORD_SUPERUSER'', nm (Metadata_Name c) ''superuser'', ''password''),
        (''PGPASSWORD_STANDBY'', nm (Metadata_Name c) ''replication'', ''password'')]]"
  proof
    assume obj: "statefulSet MustParse nm lab c = Inr obj"
    have "map (secret_refs \<circ> Container_Env)
        (PodSpec_Containers (PodTemplateSpec_Spec (Template (StatefulSet_Spec obj)))) =
      map secret_refs (map Container_Env
        (PodSpec_Containers (PodTemplateSpec_Spec (Template (StatefulSet_Spec obj)))))"
      by simp
    then show "map (secret_refs \<circ> Container_Env)
        (PodSpec_Containers (PodTemplateSpec_Spec (Template (StatefulSet_Spec obj)))) =
      [[(''PGPASSWORD_SUPERUSER'', nm (Metadata_Name c) ''superuser'', ''password''),
        (''PGPASSWORD_STANDBY'', nm (Metadata_Name c) ''replication'', ''password'')]]"
      unfolding statefulSet_env [OF obj] by (simp add: secret_refs_envVars)
  qed
  show ?thesis
    using env applySecrets_names [of st nm lab api c]
    by (simp add: secret_name secret_refs_envVars)
qed

text \<open>
  The example cluster: the names on an empty platform, the names with the users in the
  reverse order on a failing client, the name after a change of password, and the two
  references of the environment.
\<close>

theorem secret_name_deterministic_witness:
  "map object_name (creates (new_calls (start (no_objects :: nat Platform))
      (applySecrets sample_nm sample_lab kube acid_test (start no_objects)))) =
     [''superuser.acid-test'', ''replication.acid-test''] \<and>
   map object_name (creates (new_calls (start replication_exists)
      (applySecrets sample_nm sample_lab (failing superuser_fails kube)
         (acid_test\<lparr>pgUsers := rev (pgUsers acid_test)\<rparr>) (start replication_exists)))) =
     [''replication.acid-test'', ''superuser.acid-test''] \<and>
   ObjectMeta_Name (Secret_ObjectMeta (secret sample_nm sample_lab acid_test
      \<lparr>username = ''superuser'', password = ''changed''\<rparr>)) = ''superuser.acid-test'' \<and>
   (''PGPASSWORD_SUPERUSER'', ''superuser.acid-test'', ''password'') \<in>
      set (secret_refs (envVars sample_nm acid_test)) \<and>
   (''PGPASSWORD_STANDBY'', ''replication.acid-test'', ''password'') \<in>
      set (secret_refs (envVars sample_nm acid_test))"
proof -
  have name: "Metadata_Name acid_test = ''acid-test''"
    and users: "pgUsers acid_test =
      [\<lparr>username = ''superuser'', password = ''s3cret''\<rparr>,
       \<lparr>username = ''replication'', password = ''r3pl''\<rparr>]"
    by (simp_all add: acid_test_def)
  have one: "map object_name (creates (new_calls (start (no_objects :: nat Platform))
      (applySecrets sample_nm sample_lab kube acid_test (start no_objects)))) =
     [''superuser.acid-test'', ''replication.acid-test'']"
    using secret_name_deterministic [where nm = sample_nm and lab = sample_lab and c = acid_test
        and st = "start (no_objects :: nat Platform)" and api = kube, THEN conjunct2, THEN conjunct1]
    by (simp add: name users sample_nm_def)
  have two: "map object_name (creates (new_calls (start replication_exists)
      (applySecrets sample_nm sample_lab (failing superuser_fails kube)
         (acid_test\<lparr>pgUsers := rev (pgUsers acid_test)\<rparr>) (start replication_exists)))) =
     [''replication.acid-test'', ''superuser.acid-test'']"
    using secret_name_deterministic [where nm = sample_nm and lab = sample_lab
        and c = "acid_test\<lparr>pgUsers := rev (pgUsers acid_test)\<rparr>"
        and st = "start replication_exists" and api = "failing superuser_fails kube",
        THEN conjunct2, THEN conjunct1]
    by (simp add: name users sample_nm_def)
  have three: "ObjectMeta_Name (Secret_ObjectMeta (secret sample_nm sample_lab acid_test
      \<lparr>username = ''superuser'', password = ''changed''\<rparr>)) = ''superuser.acid-test''"
    using secret_name_deterministic [where nm = sample_nm and lab = sample_lab and c = acid_test
        and user = "\<lparr>username = ''superuser'', password = ''changed''\<rparr>", THEN conjunct1]
    by (simp add: name sample_nm_def)
  have refs: "secret_refs (envVars sample_nm acid_test) =
     [(''PGPASSWORD_SUPERUSER'', ''superuser.acid-test'', ''password''),
      (''PGPASSWORD_STANDBY'', ''replication.acid-test'', ''password'')]"
    by (simp add: secret_refs_envVars name sample_nm_def)
  show ?thesis
    using one two three by (simp add: refs)
qed

subsection \<open>C3: what reaches the log\<close>

text \<open>
  C3 says that every create or update attempt and its outcome is reported to the logger.
  \<open>createStatefulSet\<close> drops both results of its \<open>Create\<close>: on a client that
  refuses the connection it makes the attempt, the attempt fails, the operation returns
  normally and the log stays empty. The three other operations log the outcome of
  every create they make.
\<close>

theorem createStatefulSet_outcome_not_logged:
  "fst (createStatefulSet sample_MustParse sample_nm sample_lab
          (failing (\<lambda>cl. Some (PlatformError ''connection refused'')) kube) acid_test
          (start no_objects)) = None \<and>
   map snd (calls (snd (createStatefulSet sample_MustParse sample_nm sample_lab
          (failing (\<lambda>cl. Some (PlatformError ''connection refused'')) kube) acid_test
          (start no_objects)))) = [Some (PlatformError ''connection refused'')] \<and>
   map is_create (creates (calls (snd (createStatefulSet sample_MustParse sample_nm sample_lab
          (failing (\<lambda>cl. Some (PlatformError ''connection refused'')) kube) acid_test
          (start no_objects))))) = [True] \<and>
   log (snd (createStatefulSet sample_MustParse sample_nm sample_lab
          (failing (\<lambda>cl. Some (PlatformError ''connection refused'')) kube) acid_test
          (start no_objects))) = []"
proof -
  have cpu: "Spec_Resources_Cpu acid_test = [] \<or>
      (\<exists>q. sample_MustParse (Spec_Resources_Cpu acid_test) = Inr q)"
    by (simp add: acid_test_def)
  have mem: "Spec_Resources_Memory acid_test = [] \<or>
      (\<exists>q. sample_MustParse (Spec_Resources_Memory acid_test) = Inr q)"
    by (simp add: acid_test_def sample_MustParse_def)
  obtain obj where obj: "statefulSet sample_MustParse sample_nm sample_lab acid_test = Inr obj"
    using statefulSet_valid [OF cpu mem] by blast
  show ?thesis
    by (simp add: createStatefulSet_Inr [OF obj] failing_def start_def creates_def)
qed

subsection \<open>C4: applySecrets goes on after a failure\<close>

text \<open>
  C4. Whatever the client answers and whatever the state, \<open>applySecrets\<close> attempts
  one create per user, in order, each with that user's secret; a create answered "already
  exists" is followed at once by an update of the same secret, which holds the username
  and the password of the user and nothing else, so the update overwrites both; every
  other outcome of a create or an update is logged, an error with \<open>Errorf\<close>, and the
  loop goes on with the next user.
\<close>

theorem applySecrets_best_effort:
  "creates (new_calls st (applySecrets nm lab api c st)) =
     map (\<lambda>user. SecretsCreate (config_Namespace c) (secret nm lab c user)) (pgUsers c) \<and>
   fallback_ok (new_calls st (applySecrets nm lab api c st)) \<and>
   new_log st (applySecrets nm lab api c st) =
     concat (map recorded (new_calls st (applySecrets nm lab api c st))) \<and>
   Secret_Data (secret nm lab c user) =
     [''username'' \<mapsto> username user, ''password'' \<mapsto> password user]"
  using applySecrets_new_calls [of st nm lab api c] by (simp add: secret_def)

text \<open>
  A run in which the create of the superuser's secret times out and the replication
  user's secret already exists: the error is logged, the second user is still
  processed, and the update overwrites the old password.
\<close>

theorem applySecrets_best_effort_witness:
  "new_calls (start replication_exists)
     (applySecrets sample_nm sample_lab (failing superuser_fails kube) acid_test
        (start replication_exists)) =
     [(SecretsCreate ''default''
         (secret sample_nm sample_lab acid_test \<lparr>username = ''superuser'', password = ''s3cret''\<rparr>),
       Some (PlatformError ''timeout'')),
      (SecretsCreate ''default''
         (secret sample_nm sample_lab acid_test \<lparr>username = ''replication'', password = ''r3pl''\<rparr>),
       Some AlreadyExists),
      (SecretsUpdate ''default''
         (secret sample_nm sample_lab acid_test \<lparr>username = ''replication'', password = ''r3pl''\<rparr>),
       None)] \<and>
   fallback_ok (new_calls (start replication_exists)
     (applySecrets sample_nm sample_lab (failing superuser_fails kube) acid_test
        (start replication_exists))) \<and>
   new_log (start replication_exists)
     (applySecrets sample_nm sample_lab (failing superuser_fails kube) acid_test
        (start replication_exists)) =
     [Errorf ''Error while creating secret: %+v'' (ArgErr (PlatformError ''timeout'')),
      Infof ''Secret updated: %+v''
        (ArgSecret (secret sample_nm sample_lab acid_test
           \<lparr>username = ''replication'', password = ''r3pl''\<rparr>))] \<and>
   secrets (platform (applySecrets sample_nm sample_lab (failing superuser_fails kube) acid_test
        (start replication_exists))) (''default'', ''replication.acid-test'') =
     Some (secret sample_nm sample_lab acid_test \<lparr>username = ''replication'', password = ''r3pl''\<rparr>)"
proof -
  have run: "applySecrets sample_nm sample_lab (failing superuser_fails kube) acid_test
        (start replication_exists) =
     \<lparr>platform = replication_exists\<lparr>secrets :=
         [(''default'', ''replication.acid-test'') \<mapsto>
            secret sample_nm sample_lab acid_test \<lparr>username = ''replication'', password = ''r3pl''\<rparr>]\<rparr>,
      calls =
        [(SecretsCreate ''default''
            (secret sample_nm sample_lab acid_test \<lparr>username = ''superuser'', password = ''s3cret''\<rparr>),
          Some (PlatformError ''timeout'')),
         (SecretsCreate ''default''
            (secret sample_nm sample_lab acid_test \<lparr>username = ''replication'', password = ''r3pl''\<rparr>),
          Some AlreadyExists),
         (SecretsUpdate ''default''
            (secret sample_nm sample_lab acid_test \<lparr>username = ''replication'', password = ''r3pl''\<rparr>),
          None)],
      log =
        [Errorf ''Error while creating secret: %+v'' (ArgErr (PlatformError ''timeout'')),
         Infof ''Secret updated: %+v''
           (ArgSecret (secret sample_nm sample_lab acid_test
              \<lparr>username = ''replication'', password = ''r3pl''\<rparr>))]\<rparr>"
    by (simp add: applySecrets_def acid_test_def applySecrets_body_def invoke_eq failing_def
        superuser_fails_def replication_exists_def no_objects_def start_def
        secret_def credentialSecretName_def sample_nm_def logger_def Let_def
        IsKubernetesResourceAlreadyExistError_def)
  have calls0: "calls (start replication_exists :: (nat Platform, nat) State) = []"
    and log0: "log (start replication_exists :: (nat Platform, nat) State) = []"
    by (simp_all add: start_def)
  show ?thesis
    using applySecrets_best_effort [of "start replication_exists" sample_nm sample_lab
        "failing superuser_fails kube" acid_test]
    by (simp add: run new_calls_def new_log_def calls0 log0)
qed

subsection \<open>C5: createService and createEndPoint run twice\<close>

text \<open>
  C5. On a platform that starts with no objects, two runs of \<open>createService\<close> leave
  exactly one service, the one built for the cluster, and the second run makes no create
  and no update; the same holds for \<open>createEndPoint\<close> and endpoints. On any client
  and in any state, each of the two operations first gets the object by the cluster's
  name, and attempts the create exactly when that get answers "not found"; on any other
  outcome of the get it makes no further call.
\<close>

theorem service_endpoint_idempotent:
  "services (platform (createService lab kube c (createService lab kube c (start (no_objects :: 'q Platform))))) =
     [(config_Namespace c, Metadata_Name c) \<mapsto> service lab c] \<and>
   mutating (new_calls (createService lab kube c (start (no_objects :: 'q Platform)))
               (createService lab kube c (createService lab kube c (start (no_objects :: 'q Platform))))) = [] \<and>
   endpoints (platform (createEndPoint lab kube c (createEndPoint lab kube c (start (no_objects :: 'q Platform))))) =
     [(config_Namespace c, Metadata_Name c) \<mapsto> endPoint lab c] \<and>
   mutating (new_calls (createEndPoint lab kube c (start (no_objects :: 'q Platform)))
               (createEndPoint lab kube c (createEndPoint lab kube c (start (no_objects :: 'q Platform))))) = [] \<and>
   map fst (new_calls st (createService lab api c st)) =
     ServicesGet (config_Namespace c) (Metadata_Name c) #
     (if fst (api (ServicesGet (config_Namespace c) (Metadata_Name c)) (platform st)) = Some NotFound
      then [ServicesCreate (config_Namespace c) (service lab c)] else []) \<and>
   map fst (new_calls st' (createEndPoint lab api' c st')) =
     EndpointsGet (config_Namespace c) (Metadata_Name c) #
     (if fst (api' (EndpointsGet (config_Namespace c) (Metadata_Name c)) (platform st')) = Some NotFound
      then [EndpointsCreate (config_Namespace c) (endPoint lab c)] else [])"
  using createService_twice [where ?'q = 'q, of lab c] createEndPoint_twice [where ?'q = 'q, of lab c]
    createService_new_calls [of st lab api c] createEndPoint_new_calls [of st' lab api' c]
  by simp

text \<open>
  The theorem for the example cluster, with the trace of a first run and the trace of a
  run whose get times out.
\<close>

theorem service_endpoint_idempotent_witness:
  "services (platform (createService sample_lab kube acid_test
      (createService sample_lab kube acid_test (start (no_objects :: nat Platform))))) =
     [(''default'', ''acid-test'') \<mapsto> service sample_lab acid_test] \<and>
   mutating (new_calls (createService sample_lab kube acid_test (start (no_objects :: nat Platform)))
      (createService sample_lab kube acid_test
         (createService sample_lab kube acid_test (start (no_objects :: nat Platform))))) = [] \<and>
   endpoints (platform (createEndPoint sample_lab kube acid_test
      (createEndPoint sample_lab kube acid_test (start (no_objects :: nat Platform))))) =
     [(''default'', ''acid-test'') \<mapsto> endPoint sample_lab acid_test] \<and>
   mutating (new_calls (createEndPoint sample_lab kube acid_test (start (no_objects :: nat Platform)))
      (createEndPoint sample_lab kube acid_test
         (createEndPoint sample_lab kube acid_test (start (no_objects :: nat Platform))))) = [] \<and>
   map fst (new_calls (start (no_objects :: nat Platform))
      (createService sample_lab kube acid_test (start no_objects))) =
     [ServicesGet ''default'' ''acid-test'',
      ServicesCreate ''default'' (service sample_lab acid_test)] \<and>
   map fst (new_calls (start (no_objects :: nat Platform))
     (createEndPoint sample_lab (failing (\<lambda>cl. Some (PlatformError ''timeout'')) kube) acid_test
        (start no_objects))) = [EndpointsGet ''default'' ''acid-test'']"
proof -
  have ns: "config_Namespace acid_test = ''default''"
    and name: "Metadata_Name acid_test = ''acid-test''"
    by (simp_all add: acid_test_def)
  have get1: "fst (kube (ServicesGet ''default'' ''acid-test'')
        (platform (start (no_objects :: nat Platform) :: (nat Platform, nat) State))) = Some NotFound"
    by (simp add: start_def no_objects_def)
  have get2: "fst (failing (\<lambda>cl. Some (PlatformError ''timeout'')) kube
        (EndpointsGet ''default'' ''acid-test'')
        (platform (start (no_objects :: nat Platform) :: (nat Platform, nat) State))) =
      Some (PlatformError ''timeout'')"
    by (simp add: failing_def)
  show ?thesis
    using service_endpoint_idempotent [where ?'q = nat, of sample_lab acid_test
        "start (no_objects :: nat Platform)" kube "start (no_objects :: nat Platform)"
        "failing (\<lambda>cl. Some (PlatformError ''timeout'')) kube"]
    unfolding ns name get1 get2 by simp
qed

subsection \<open>C6: createStatefulSet creates without looking\<close>

text \<open>
  C6, as amended. For every cluster whose CPU and memory strings are each empty or
  accepted by \<open>MustParse\<close>, on any client and in any state, \<open>createStatefulSet\<close>
  makes exactly one call, the create of the StatefulSet it built: no get comes before
  it, and whatever the create answers, "already exists" included, no call follows it,
  nothing is logged and the operation returns normally.
\<close>

theorem createStatefulSet_one_create:
  assumes "Spec_Resources_Cpu c = [] \<or> (\<exists>q. MustParse (Spec_Resources_Cpu c) = Inr q)"
    and "Spec_Resources_Memory c = [] \<or> (\<exists>q. MustParse (Spec_Resources_Memory c) = Inr q)"
  shows "\<exists>obj. statefulSet MustParse nm lab c = Inr obj \<and>
     fst (createStatefulSet MustParse nm lab api c st) = None \<and>
     new_calls st (snd (createStatefulSet MustParse nm lab api c st)) =
       [(StatefulSetsCreate (config_Namespace c) obj,
         fst (api (StatefulSetsCreate (config_Namespace c) obj) (platform st)))] \<and>
     log (snd (createStatefulSet MustParse nm lab api c st)) = log st"
proof -
  from assms obtain obj where obj: "statefulSet MustParse nm lab c = Inr obj"
    using statefulSet_valid by blast
  show ?thesis
    using obj by (simp add: createStatefulSet_Inr [OF obj] new_calls_def)
qed

text \<open>
  The example cluster, run twice on a platform that starts empty: the second run
  attempts the create again and its "already exists" answer is dropped.
\<close>

theorem createStatefulSet_one_create_witness:
  "\<exists>obj. statefulSet sample_MustParse sample_nm sample_lab acid_test = Inr obj \<and>
     map snd (calls (snd (createStatefulSet sample_MustParse sample_nm sample_lab kube acid_test
        (start no_objects)))) = [None] \<and>
     new_calls (snd (createStatefulSet sample_MustParse sample_nm sample_lab kube acid_test
                  (start no_objects)))
       (snd (createStatefulSet sample_MustParse sample_nm sample_lab kube acid_test
          (snd (createStatefulSet sample_MustParse sample_nm sample_lab kube acid_test
                  (start no_objects))))) =
       [(StatefulSetsCreate ''default'' obj, Some AlreadyExists)]"
proof -
  have cpu: "Spec_Resources_Cpu acid_test = [] \<or>
      (\<exists>q. sample_MustParse (Spec_Resources_Cpu acid_test) = Inr q)"
    by (simp add: acid_test_def)
  have mem: "Spec_Resources_Memory acid_test = [] \<or>
      (\<exists>q. sample_MustParse (Spec_Resources_Memory acid_test) = Inr q)"
    by (simp add: acid_test_def sample_MustParse_def)
  obtain obj where obj: "statefulSet sample_MustParse sample_nm sample_lab acid_test = Inr obj"
    using createStatefulSet_one_create [OF cpu mem] by blast
  have name: "ObjectMeta_Name (StatefulSet_ObjectMeta obj) = ''acid-test''"
    using statefulSet_Inr [OF obj] by (auto simp add: acid_test_def)
  have ns: "config_Namespace acid_test = ''default''"
    by (simp add: acid_test_def)
  have first: "snd (createStatefulSet sample_MustParse sample_nm sample_lab kube acid_test
        (start no_objects)) =
      \<lparr>platform = no_objects\<lparr>statefulSets := [(''default'', ''acid-test'') \<mapsto> obj]\<rparr>,
       calls = [(StatefulSetsCreate ''default'' obj, None)], log = []\<rparr>"
    by (simp add: createStatefulSet_Inr [OF obj] name ns start_def no_objects_def)
  have second: "new_calls (snd (createStatefulSet sample_MustParse sample_nm sample_lab kube acid_test
                  (start no_objects)))
       (snd (createStatefulSet sample_MustParse sample_nm sample_lab kube acid_test
          (snd (createStatefulSet sample_MustParse sample_nm sample_lab kube acid_test
                  (start no_objects))))) =
       [(StatefulSetsCreate ''default'' obj, Some AlreadyExists)]"
    unfolding first
    by (simp add: createStatefulSet_Inr [OF obj] name ns no_objects_def new_calls_def)
  show ?thesis
    using obj first second by simp
qed

text \<open>
  The claim as first stated is about every cluster spec. With a malformed CPU string
  the operation panics before line 139 and makes no create.
\<close>

theorem malformed_quantity_no_create:
  "creates (new_calls (start no_objects)
     (snd (createStatefulSet sample_MustParse sample_nm sample_lab kube
        (acid_test\<lparr>Spec_Resources_Cpu := ''not-a-quantity''\<rparr>) (start no_objects)))) = []"
  by (simp add: createStatefulSet_def statefulSet_def resourceList_def sample_MustParse_def
      new_calls_def creates_def)

subsection \<open>C7: the resource requests\<close>

text \<open>
  C7. Whenever a StatefulSet is built it has one container, and the container's request
  map has a CPU entry exactly when the spec's CPU string is not empty and a memory entry
  exactly when the memory string is not empty; an entry holds the quantity
  \<open>MustParse\<close> returned for the string, so no entry is made up for an absent value.
\<close>

theorem requests_only_supplied:
  assumes "statefulSet MustParse nm lab c = Inr obj"
  shows "\<exists>ct. PodSpec_Containers (PodTemplateSpec_Spec (Template (StatefulSet_Spec obj))) = [ct] \<and>
     (ResourceCPU \<in> dom (Requests (Container_Resources ct)) \<longleftrightarrow> Spec_Resources_Cpu c \<noteq> []) \<and>
     (ResourceMemory \<in> dom (Requests (Container_Resources ct)) \<longleftrightarrow>
        Spec_Resources_Memory c \<noteq> []) \<and>
     (\<forall>q. Requests (Container_Resources ct) ResourceCPU = Some q \<longrightarrow>
        MustParse (Spec_Resources_Cpu c) = Inr q) \<and>
     (\<forall>q. Requests (Container_Resources ct) ResourceMemory = Some q \<longrightarrow>
        MustParse (Spec_Resources_Memory c) = Inr q)"
proof -
  obtain rl where rl: "resourceList MustParse c = Inr rl"
    and ct: "PodSpec_Containers (PodTemplateSpec_Spec (Template (StatefulSet_Spec obj))) =
       [container rl nm c]"
    using statefulSet_containers [OF assms] by blast
  have req: "Requests (Container_Resources (container rl nm c)) = rl"
    by (simp add: container_def)
  show ?thesis
    using ct resourceList_dom [OF rl] resourceList_values [OF rl] by (simp add: req)
qed

text \<open>
  The spec's example, CPU empty and memory \<open>1Gi\<close>: the map is exactly the memory
  entry.
\<close>

theorem requests_only_supplied_witness:
  "\<exists>obj ct. statefulSet sample_MustParse sample_nm sample_lab acid_test = Inr obj \<and>
     PodSpec_Containers (PodTemplateSpec_Spec (Template (StatefulSet_Spec obj))) = [ct] \<and>
     Requests (Container_Resources ct) = [ResourceMemory \<mapsto> 1073741824] \<and>
     ResourceCPU \<notin> dom (Requests (Container_Resources ct)) \<and>
     ResourceMemory \<in> dom (Requests (Container_Resources ct))"
proof -
  have rl: "resourceList sample_MustParse acid_test = Inr [ResourceMemory \<mapsto> 1073741824]"
    by (simp add: resourceList_def sample_MustParse_def acid_test_def)
  then obtain obj where obj: "statefulSet sample_MustParse sample_nm sample_lab acid_test = Inr obj"
    by (simp add: statefulSet_def Let_def)
  obtain ct where ct: "PodSpec_Containers (PodTemplateSpec_Spec (Template (StatefulSet_Spec obj))) = [ct]"
    and cpu: "ResourceCPU \<in> dom (Requests (Container_Resources ct)) \<longleftrightarrow>
        Spec_Resources_Cpu acid_test \<noteq> []"
    and mem: "ResourceMemory \<in> dom (Requests (Container_Resources ct)) \<longleftrightarrow>
        Spec_Resources_Memory acid_test \<noteq> []"
    using requests_only_supplied [OF obj] by blast
  have "ct = container [ResourceMemory \<mapsto> 1073741824] sample_nm acid_test"
    using statefulSet_containers [OF obj] rl ct by simp
  then have "Requests (Container_Resources ct) = [ResourceMemory \<mapsto> 1073741824]"
    by (simp add: container_def)
  moreover have "ResourceCPU \<notin> dom (Requests (Container_Resources ct))"
    using cpu by (simp add: acid_test_def)
  moreover have "ResourceMemory \<in> dom (Requests (Container_Resources ct))"
    using mem by (simp add: acid_test_def)
  ultimately show ?thesis using obj ct by blast
qed

subsection \<open>C8: the environment of the container\<close>

text \<open>
  C8. The container of every StatefulSet built carries exactly seven environment
  variables, in this order: \<open>SCOPE\<close> with the cluster's name, \<open>PGROOT\<close> with a
  fixed path, \<open>ETCD_HOST\<close> with \<open>c.etcdHost\<close>, \<open>POD_IP\<close> and
  \<open>POD_NAMESPACE\<close> as field references, and \<open>PGPASSWORD_SUPERUSER\<close> and
  \<open>PGPASSWORD_STANDBY\<close>, which have no inline value and refer to the key
  \<open>password\<close> of the secret built for the user named \<open>superuser\<close> and
  \<open>replication\<close>; that key holds the user's password. The StatefulSet is the same
  whatever the users and their passwords are.
\<close>

theorem container_env:
  assumes "statefulSet MustParse nm lab c = Inr obj"
  shows "\<exists>ct. PodSpec_Containers (PodTemplateSpec_Spec (Template (StatefulSet_Spec obj))) = [ct] \<and>
     map EnvVar_Name (Container_Env ct) =
       [''SCOPE'', ''PGROOT'', ''ETCD_HOST'', ''POD_IP'', ''POD_NAMESPACE'',
        ''PGPASSWORD_SUPERUSER'', ''PGPASSWORD_STANDBY''] \<and>
     map EnvVar_Value (Container_Env ct) =
       [Metadata_Name c, ''/home/postgres/pgdata/pgroot'', etcdHost c, [], [], [], []] \<and>
     map EnvVar_ValueFrom (Container_Env ct) =
       [None, None, None,
        Some \<lparr>FieldRef = Some \<lparr>FieldRef_APIVersion = ''v1'', FieldRef_FieldPath = ''status.podIP''\<rparr>,
              SecretKeyRef = None\<rparr>,
        Some \<lparr>FieldRef = Some \<lparr>FieldRef_APIVersion = ''v1'',
                                  FieldRef_FieldPath = ''metadata.namespace''\<rparr>,
              SecretKeyRef = None\<rparr>,
        Some \<lparr>FieldRef = None,
              SecretKeyRef = Some \<lparr>
                LocalObjectReference_Name =
                  ObjectMeta_Name (Secret_ObjectMeta
                    (secret nm lab c \<lparr>username = ''superuser'', password = pw\<rparr>)),
                SecretKeyRef_Key = ''password''\<rparr>\<rparr>,
        Some \<lparr>FieldRef = None,
              SecretKeyRef = Some \<lparr>
                LocalObjectReference_Name =
                  ObjectMeta_Name (Secret_ObjectMeta
                    (secret nm lab c \<lparr>username = ''replication'', password = pw'\<rparr>)),
                SecretKeyRef_Key = ''password''\<rparr>\<rparr>] \<and>
     Secret_Data (secret nm lab c \<lparr>username = ''superuser'', password = pw\<rparr>) ''password'' =
       Some pw \<and>
     Secret_Data (secret nm lab c \<lparr>username = ''replication'', password = pw'\<rparr>) ''password'' =
       Some pw' \<and>
     statefulSet MustParse nm lab (c\<lparr>pgUsers := users\<rparr>) = Inr obj"
proof -
  obtain rl where ct: "PodSpec_Containers (PodTemplateSpec_Spec (Template (StatefulSet_Spec obj))) =
       [container rl nm c]"
    using statefulSet_containers [OF assms] by blast
  have env: "Container_Env (container rl nm c) = envVars nm c"
    by (simp add: container_def)
  have data: "Secret_Data (secret nm lab c \<lparr>username = ''superuser'', password = pw\<rparr>) ''password'' =
       Some pw"
     "Secret_Data (secret nm lab c \<lparr>username = ''replication'', password = pw'\<rparr>) ''password'' =
       Some pw'"
    by (simp_all add: secret_def)
  show ?thesis
    using ct assms data
    by (simp add: env envVars_names envVars_values envVars_sources [of nm c lab pw pw']
        statefulSet_pgUsers)
qed

text \<open>The example cluster.\<close>

theorem container_env_witness:
  "\<exists>obj ct. statefulSet sample_MustParse sample_nm sample_lab acid_test = Inr obj \<and>
     PodSpec_Containers (PodTemplateSpec_Spec (Template (StatefulSet_Spec obj))) = [ct] \<and>
     length (Container_Env ct) = 7 \<and>
     map EnvVar_Name (Container_Env ct) =
       [''SCOPE'', ''PGROOT'', ''ETCD_HOST'', ''POD_IP'', ''POD_NAMESPACE'',
        ''PGPASSWORD_SUPERUSER'', ''PGPASSWORD_STANDBY''] \<and>
     map EnvVar_Value (Container_Env ct) =
       [''acid-test'', ''/home/postgres/pgdata/pgroot'', ''etcd.default'', [], [], [], []] \<and>
     secret_refs (Container_Env ct) =
       [(''PGPASSWORD_SUPERUSER'', ''superuser.acid-test'', ''password''),
        (''PGPASSWORD_STANDBY'', ''replication.acid-test'', ''password'')] \<and>
     statefulSet sample_MustParse sample_nm sample_lab (acid_test\<lparr>pgUsers := []\<rparr>) = Inr obj"
proof -
  have "resourceList sample_MustParse acid_test = Inr [ResourceMemory \<mapsto> 1073741824]"
    by (simp add: resourceList_def sample_MustParse_def acid_test_def)
  then obtain obj where obj: "statefulSet sample_MustParse sample_nm sample_lab acid_test = Inr obj"
    by (simp add: statefulSet_def Let_def)
  obtain ct where ct: "PodSpec_Containers (PodTemplateSpec_Spec (Template (StatefulSet_Spec obj))) = [ct]"
    and names: "map EnvVar_Name (Container_Env ct) =
       [''SCOPE'', ''PGROOT'', ''ETCD_HOST'', ''POD_IP'', ''POD_NAMESPACE'',
        ''PGPASSWORD_SUPERUSER'', ''PGPASSWORD_STANDBY'']"
    and vals: "map EnvVar_Value (Container_Env ct) =
       [Metadata_Name acid_test, ''/home/postgres/pgdata/pgroot'', etcdHost acid_test,
        [], [], [], []]"
    and users: "statefulSet sample_MustParse sample_nm sample_lab (acid_test\<lparr>pgUsers := []\<rparr>) = Inr obj"
    using container_env [OF obj, of "''s3cret''" "''r3pl''" "[]"]
    by (elim exE conjE) (rule that; assumption)
  have "length (map EnvVar_Name (Container_Env ct)) = 7"
    unfolding names by simp
  then have len: "length (Container_Env ct) = 7"
    by simp
  obtain rl where "[ct] = [container rl sample_nm acid_test]"
    using statefulSet_containers [OF obj] ct by auto
  then have "Container_Env ct = envVars sample_nm acid_test"
    by (simp add: container_def)
  then have refs: "secret_refs (Container_Env ct) =
       [(''PGPASSWORD_SUPERUSER'', ''superuser.acid-test'', ''password''),
        (''PGPASSWORD_STANDBY'', ''replication.acid-test'', ''password'')]"
    by (simp add: secret_refs_def envVars_def credentialSecretName_def sample_nm_def
        acid_test_def Let_def)
  have vals': "map EnvVar_Value (Container_Env ct) =
       [''acid-test'', ''/home/postgres/pgdata/pgroot'', ''etcd.default'', [], [], [], []]"
    using vals by (simp add: acid_test_def)
  show ?thesis
    by (intro exI [of _ obj] exI [of _ ct] conjI) (fact obj ct len names vals' refs users)+
qed

subsection \<open>C9: the labels\<close>

text \<open>
  C9. Every object that any of the four operations submits to the platform, in any state
  and on any client, carries the label set \<open>c.labels()\<close>: the StatefulSet and its
  pod template, each secret, the service and the endpoint. That label set is the same
  for two clusters of the same name.
\<close>

theorem labels_identical:
  "set (concat (map (object_labels \<circ> fst)
      (new_calls st1 (snd (createStatefulSet MustParse nm lab api1 c st1))))) \<subseteq> {labels lab c} \<and>
   set (concat (map (object_labels \<circ> fst)
      (new_calls st2 (applySecrets nm lab api2 c st2)))) \<subseteq> {labels lab c} \<and>
   set (concat (map (object_labels \<circ> fst)
      (new_calls st3 (createService lab api3 c st3)))) \<subseteq> {labels lab c} \<and>
   set (concat (map (object_labels \<circ> fst)
      (new_calls st4 (createEndPoint lab api4 c st4)))) \<subseteq> {labels lab c} \<and>
   (statefulSet MustParse nm lab c = Inr obj \<longrightarrow>
      object_labels (StatefulSetsCreate ns obj) = [labels lab c, labels lab c]) \<and>
   object_labels (SecretsCreate ns (secret nm lab c user)) = [labels lab c] \<and>
   object_labels (ServicesCreate ns (service lab c)) = [labels lab c] \<and>
   object_labels (EndpointsCreate ns (endPoint lab c)) = [labels lab c] \<and>
   (Metadata_Name c' = Metadata_Name c \<longrightarrow> labels lab c' = labels lab c)"
proof -
  have "statefulSet MustParse nm lab c = Inr obj \<longrightarrow>
      object_labels (StatefulSetsCreate ns obj) = [labels lab c, labels lab c]"
    using statefulSet_Inr [of MustParse nm lab c obj] by (auto simp add: template_def)
  then show ?thesis
    using createStatefulSet_labels [of st1 MustParse nm lab api1 c]
      applySecrets_labels [of st2 nm lab api2 c]
      createService_labels [of st3 lab api3 c]
      createEndPoint_labels [of st4 lab api4 c]
    by (simp add: secret_def service_def endPoint_def labels_def)
qed

text \<open>The example cluster, and a cluster that differs from it in other fields.\<close>

theorem labels_identical_witness:
  "(\<exists>obj. statefulSet sample_MustParse sample_nm sample_lab acid_test = Inr obj \<and>
      object_labels (StatefulSetsCreate ''default'' obj) =
        [[''cluster'' \<mapsto> ''acid-test''], [''cluster'' \<mapsto> ''acid-test'']]) \<and>
   object_labels (SecretsCreate ''default''
      (secret sample_nm sample_lab acid_test \<lparr>username = ''superuser'', password = ''s3cret''\<rparr>)) =
     [[''cluster'' \<mapsto> ''acid-test'']] \<and>
   object_labels (ServicesCreate ''default'' (service sample_lab acid_test)) =
     [[''cluster'' \<mapsto> ''acid-test'']] \<and>
   object_labels (EndpointsCreate ''default'' (endPoint sample_lab acid_test)) =
     [[''cluster'' \<mapsto> ''acid-test'']] \<and>
   labels sample_lab (acid_test\<lparr>etcdHost := ''elsewhere'', pgUsers := []\<rparr>) =
     [''cluster'' \<mapsto> ''acid-test'']"
proof -
  have "resourceList sample_MustParse acid_test = Inr [ResourceMemory \<mapsto> 1073741824]"
    by (simp add: resourceList_def sample_MustParse_def acid_test_def)
  then obtain obj where obj: "statefulSet sample_MustParse sample_nm sample_lab acid_test = Inr obj"
    by (simp add: statefulSet_def Let_def)
  have lab: "labels sample_lab acid_test = [''cluster'' \<mapsto> ''acid-test'']"
    by (simp add: labels_def sample_lab_def acid_test_def fun_eq_iff)
  have name: "Metadata_Name (acid_test\<lparr>etcdHost := ''elsewhere'', pgUsers := []\<rparr>) =
      Metadata_Name acid_test"
    by simp
  have all: "object_labels (StatefulSetsCreate ''default'' obj) =
        [[''cluster'' \<mapsto> ''acid-test''], [''cluster'' \<mapsto> ''acid-test'']] \<and>
   object_labels (SecretsCreate ''default''
      (secret sample_nm sample_lab acid_test \<lparr>username = ''superuser'', password = ''s3cret''\<rparr>)) =
     [[''cluster'' \<mapsto> ''acid-test'']] \<and>
   object_labels (ServicesCreate ''default'' (service sample_lab acid_test)) =
     [[''cluster'' \<mapsto> ''acid-test'']] \<and>
   object_labels (EndpointsCreate ''default'' (endPoint sample_lab acid_test)) =
     [[''cluster'' \<mapsto> ''acid-test'']] \<and>
   labels sample_lab (acid_test\<lparr>etcdHost := ''elsewhere'', pgUsers := []\<rparr>) =
     [''cluster'' \<mapsto> ''acid-test'']"
    using labels_identical [where MustParse = sample_MustParse and nm = sample_nm
        and lab = sample_lab and c = acid_test and obj = obj and ns = "''default''"
        and user = "\<lparr>username = ''superuser'', password = ''s3cret''\<rparr>"
        and c' = "acid_test\<lparr>etcdHost := ''elsewhere'', pgUsers := []\<rparr>"
        and ?st1.0 = "start (no_objects :: nat Platform)" and ?api1.0 = kube
        and ?st2.0 = "start (no_objects :: nat Platform)" and ?api2.0 = kube
        and ?st3.0 = "start (no_objects :: nat Platform)" and ?api3.0 = kube
        and ?st4.0 = "start (no_objects :: nat Platform)" and ?api4.0 = kube]
      obj
    unfolding lab name by simp
  show ?thesis
    using obj all by (intro conjI exI [of _ obj]) simp_all
qed

subsection \<open>C10: the governing service\<close>

text \<open>
  C10. The \<open>ServiceName\<close> of every StatefulSet built is the cluster's name, which is
  the name of the service \<open>createService\<close> builds, the name it looks up and, when it
  creates, the name it creates under; on a platform with no objects the service is then
  stored under that name in the cluster's namespace.
\<close>

theorem serviceName_is_service:
  assumes "statefulSet MustParse nm lab c = Inr obj"
  shows "ServiceName (StatefulSet_Spec obj) = Metadata_Name c \<and>
     ObjectMeta_Name (Service_ObjectMeta (service lab c)) = ServiceName (StatefulSet_Spec obj) \<and>
     set (map (object_name \<circ> fst) (new_calls st (createService lab api c st))) =
       {ServiceName (StatefulSet_Spec obj)} \<and>
     creates (new_calls st (createService lab api c st)) =
       (if fst (api (ServicesGet (config_Namespace c) (Metadata_Name c)) (platform st)) = Some NotFound
        then [ServicesCreate (config_Namespace c) (service lab c)] else []) \<and>
     services (platform (createService lab kube c (start (no_objects :: 'q Platform))))
       (config_Namespace c, ServiceName (StatefulSet_Spec obj)) = Some (service lab c)"
proof -
  have sn: "ServiceName (StatefulSet_Spec obj) = Metadata_Name c"
    using statefulSet_Inr [OF assms] by auto
  have svc: "ObjectMeta_Name (Service_ObjectMeta (service lab c)) = Metadata_Name c"
    by (simp add: service_def)
  have "map (object_name \<circ> fst) (new_calls st (createService lab api c st)) =
      map object_name (map fst (new_calls st (createService lab api c st)))"
    by simp
  then have names: "set (map (object_name \<circ> fst) (new_calls st (createService lab api c st))) =
      {Metadata_Name c}"
    unfolding createService_new_calls by (auto simp add: svc)
  have "creates (new_calls st (createService lab api c st)) =
      filter is_create (map fst (new_calls st (createService lab api c st)))"
    by (simp add: creates_def)
  then have cr: "creates (new_calls st (createService lab api c st)) =
       (if fst (api (ServicesGet (config_Namespace c) (Metadata_Name c)) (platform st)) = Some NotFound
        then [ServicesCreate (config_Namespace c) (service lab c)] else [])"
    unfolding createService_new_calls by simp
  have kube: "services (platform (createService lab kube c (start (no_objects :: 'q Platform))))
       (config_Namespace c, Metadata_Name c) = Some (service lab c)"
    by (simp add: createService_platform start_def no_objects_def svc)
  show ?thesis
    using svc names cr kube by (simp add: sn)
qed

text \<open>The example cluster.\<close>

theorem serviceName_is_service_witness:
  "\<exists>obj. statefulSet sample_MustParse sample_nm sample_lab acid_test = Inr obj \<and>
     ServiceName (StatefulSet_Spec obj) = ''acid-test'' \<and>
     ObjectMeta_Name (Service_ObjectMeta (service sample_lab acid_test)) = ''acid-test'' \<and>
     creates (new_calls (start (no_objects :: nat Platform))
        (createService sample_lab kube acid_test (start no_objects))) =
       [ServicesCreate ''default'' (service sample_lab acid_test)] \<and>
     services (platform (createService sample_lab kube acid_test (start (no_objects :: nat Platform))))
       (''default'', ''acid-test'') = Some (service sample_lab acid_test)"
proof -
  have "resourceList sample_MustParse acid_test = Inr [ResourceMemory \<mapsto> 1073741824]"
    by (simp add: resourceList_def sample_MustParse_def acid_test_def)
  then obtain obj where obj: "statefulSet sample_MustParse sample_nm sample_lab acid_test = Inr obj"
    by (simp add: statefulSet_def Let_def)
  have ns: "config_Namespace acid_test = ''default''"
    and name: "Metadata_Name acid_test = ''acid-test''"
    by (simp_all add: acid_test_def)
  have get: "fst (kube (ServicesGet ''default'' ''acid-test'')
        (platform (start (no_objects :: nat Platform) :: (nat Platform, nat) State))) = Some NotFound"
    by (simp add: start_def no_objects_def)
  have sn: "ServiceName (StatefulSet_Spec obj) = ''acid-test''"
    using statefulSet_Inr [OF obj] by (auto simp add: name)
  have all: "ServiceName (StatefulSet_Spec obj) = ''acid-test'' \<and>
     ObjectMeta_Name (Service_ObjectMeta (service sample_lab acid_test)) = ''acid-test'' \<and>
     creates (new_calls (start (no_objects :: nat Platform))
        (createService sample_lab kube acid_test (start no_objects))) =
       [ServicesCreate ''default'' (service sample_lab acid_test)] \<and>
     services (platform (createService sample_lab kube acid_test (start (no_objects :: nat Platform))))
       (''default'', ''acid-test'') = Some (service sample_lab acid_test)"
    using serviceName_is_service [OF obj, where ?'q = nat and st = "start (no_objects :: nat Platform)"
        and api = kube]
    unfolding ns name get sn by simp
  show ?thesis
    using obj all by (intro conjI exI [of _ obj]) simp_all
qed

end
